theory Spec2Isabelle
  imports Complex_Main "HOL-Library.AList" "HOL-Library.Char_ord" "HOL-Library.List_Lexorder"
begin

section \<open>Numbers\<close>

text \<open>
  A JavaScript \<open>number\<close> that holds a finite value is modelled as an exact rational
  (\<open>rat\<close>); values that the source rounds with \<open>Math.round\<close>, \<open>Math.floor\<close> or
  \<open>Math.ceil\<close>, and millisecond timestamps (\<open>Date.now()\<close>, \<open>getTime()\<close>), are \<open>int\<close>.
  \<open>NaN\<close>, the infinities and the rounding error of binary floating point have no
  counterpart here.
\<close>

text \<open>\<open>function clamp(n, a, b) { return Math.max(a, Math.min(b, n)); }\<close>\<close>

definition clamp :: "'a::linorder \<Rightarrow> 'a \<Rightarrow> 'a \<Rightarrow> 'a" where
  "clamp n a b = max a (min b n)"

text \<open>\<open>Math.round\<close> rounds to the nearest integer, a tie going up.\<close>

definition Math_round :: "rat \<Rightarrow> int" where
  "Math_round x = \<lfloor>x + 1 / 2\<rfloor>"

text \<open>\<open>x || d\<close> on a number: \<open>d\<close> when \<open>x\<close> is \<open>0\<close> (the only falsy finite number).\<close>

definition num_or :: "rat \<Rightarrow> rat \<Rightarrow> rat" where
  "num_or x d = (if x = 0 then d else x)"

text \<open>\<open>function ceilDiv(a, b) { return b <= 0 ? 0 : Math.ceil(a / b); }\<close>\<close>

definition ceilDiv :: "rat \<Rightarrow> rat \<Rightarrow> int" where
  "ceilDiv a b = (if b \<le> 0 then 0 else \<lceil>a / b\<rceil>)"

section \<open>The application state\<close>

text \<open>
  One entry of \<open>dailyLog\<close>. The optional fields of the source's type are options;
  \<open>windowTotalsMl\<close> is declared in the source but never read or written. Field names
  that would clash with variables or with the state's fields carry a prefix (\<open>log_at\<close>
  is \<open>at\<close>, \<open>entry_t\<close> is \<open>t\<close>, \<open>cel_pct\<close> is \<open>pct\<close>, and so on).
\<close>

record DayLog =
  consumedML :: rat
  log_goalML :: rat
  log_bottleML :: rat
  log_carryML :: rat
  log_extraML :: rat
  log_at :: int
  windowHitCounts :: "rat list option"
  windowHits :: "bool list option"
  windowConsumedML :: "rat list option"
  lastEventAt :: "int option"

text \<open>One entry of \<open>history\<close>: the values before a mutation.\<close>

record HistoryEntry =
  entry_t :: int
  prevRemaining :: rat
  prevCompleted :: rat
  prevCarry :: rat
  prevExtra :: rat
  entry_action :: "string option"
  entry_ml :: "rat option"
  rhythmWindowIndex :: "nat option"
  rhythmDelta :: "rat option"
  rhythmMlDelta :: "rat option"

datatype CelebrateType = Bottle | Goal

record Celebrate =
  cel_type :: CelebrateType
  cel_pct :: int
  cel_consumedML :: rat

text \<open>
  The fields of \<open>makeDefaultState()\<close> that the tracking functions read or write. An
  object used as a dictionary (\<open>dailyLog\<close>) is an association list in insertion order.
\<close>

record AppState =
  goalML :: rat
  bottleML :: rat
  wakeMins :: rat
  sleepMins :: rat
  dayKey :: string
  completedBottles :: rat
  remaining :: rat
  carryML :: rat
  extraML :: rat
  dailyLog :: "(string \<times> DayLog) list"
  history :: "HistoryEntry list"
  celebrate :: "Celebrate option"

text \<open>
\<^verbatim>\<open>
function totalConsumedFromState(s) {
  const n = ceilDiv(s.goalML, s.bottleML);
  const completed = clamp(s.completedBottles, 0, n) * s.bottleML;
  const consumedCurrent = Math.round((1 - s.remaining) * s.bottleML);
  const carry = clamp(Math.round(s.carryML || 0), 0, 100000);
  const extra = clamp(Math.round(s.extraML || 0), 0, 100000);
  return Math.min(s.goalML, completed + consumedCurrent + carry + extra);
}
\<close>
\<close>

definition totalConsumedFromState :: "AppState \<Rightarrow> rat" where
  "totalConsumedFromState s =
     (let n = ceilDiv (goalML s) (bottleML s);
          completed = clamp (completedBottles s) 0 (of_int n) * bottleML s;
          consumedCurrent = Math_round ((1 - remaining s) * bottleML s);
          carry = clamp (Math_round (num_or (carryML s) 0)) 0 100000;
          extra = clamp (Math_round (num_or (extraML s) 0)) 0 100000
      in min (goalML s) (completed + of_int consumedCurrent + of_int carry + of_int extra))"

section \<open>Dates\<close>

text \<open>
  A \<open>Date\<close> is its \<open>getTime()\<close>, the milliseconds since the epoch. The local calendar
  is that of a zone at a constant offset \<open>tz\<close> (milliseconds east of UTC), the first
  argument of every function that reads local fields; daylight-saving changes are not
  modelled. The civil calendar is the proleptic Gregorian one, computed from the day
  number by the usual era arithmetic.
\<close>

type_synonym Date = int

definition civil_from_days :: "int \<Rightarrow> int \<times> int \<times> int" where
  "civil_from_days z0 =
     (let z = z0 + 719468;
          era = z div 146097;
          doe = z - era * 146097;
          yoe = (doe - doe div 1460 + doe div 36524 - doe div 146096) div 365;
          y = yoe + era * 400;
          doy = doe - (365 * yoe + yoe div 4 - yoe div 100);
          mp = (5 * doy + 2) div 153;
          d = doy - (153 * mp + 2) div 5 + 1;
          m = (if mp < 10 then mp + 3 else mp - 9)
      in (if m \<le> 2 then y + 1 else y, m, d))"

definition days_from_civil :: "int \<Rightarrow> int \<Rightarrow> int \<Rightarrow> int" where
  "days_from_civil y0 m d =
     (let y = (if m \<le> 2 then y0 - 1 else y0);
          era = y div 400;
          yoe = y - era * 400;
          doy = (153 * (if m > 2 then m - 3 else m + 9) + 2) div 5 + d - 1;
          doe = yoe * 365 + yoe div 4 - yoe div 100 + doy
      in era * 146097 + doe - 719468)"

definition localDay :: "int \<Rightarrow> Date \<Rightarrow> int" where
  "localDay tz d = (d + tz) div 86400000"

definition getFullYear :: "int \<Rightarrow> Date \<Rightarrow> int" where
  "getFullYear tz d = fst (civil_from_days (localDay tz d))"

definition getMonth :: "int \<Rightarrow> Date \<Rightarrow> int" where
  "getMonth tz d = fst (snd (civil_from_days (localDay tz d))) - 1"

definition getDate :: "int \<Rightarrow> Date \<Rightarrow> int" where
  "getDate tz d = snd (snd (civil_from_days (localDay tz d)))"

definition getHours :: "int \<Rightarrow> Date \<Rightarrow> int" where
  "getHours tz d = ((d + tz) mod 86400000) div 3600000"

definition getMinutes :: "int \<Rightarrow> Date \<Rightarrow> int" where
  "getMinutes tz d = ((d + tz) mod 3600000) div 60000"

text \<open>
  \<open>d.setHours(h, m, 0, 0)\<close>: the local day of \<open>d\<close> stays, the time of day is replaced
  (hours and minutes beyond a day carry over).
\<close>

definition setHours :: "int \<Rightarrow> Date \<Rightarrow> int \<Rightarrow> int \<Rightarrow> Date" where
  "setHours tz d h m = localDay tz d * 86400000 - tz + h * 3600000 + m * 60000"

text \<open>\<open>d.setDate(d.getDate() + n)\<close>\<close>

definition addDays :: "Date \<Rightarrow> int \<Rightarrow> Date" where
  "addDays d n = d + n * 86400000"

text \<open>
  \<open>new Date(y, monthIndex, day, 0, 0, 0, 0)\<close>: local midnight; a year \<open>0..99\<close> means
  \<open>1900 + y\<close>, months and days out of range carry over.
\<close>

definition Date_local :: "int \<Rightarrow> int \<Rightarrow> int \<Rightarrow> int \<Rightarrow> Date" where
  "Date_local tz y monthIndex day =
     (let yy = (if 0 \<le> y \<and> y \<le> 99 then 1900 + y else y);
          ym = yy + monthIndex div 12;
          mn = monthIndex mod 12
      in (days_from_civil ym (mn + 1) 1 + (day - 1)) * 86400000 - tz)"

section \<open>Strings of numbers\<close>

text \<open>\<open>String(n)\<close> for an integer \<open>n\<close>: its decimal digits.\<close>

fun String_nat :: "nat \<Rightarrow> string" where
  "String_nat n =
     (if n < 10 then [''0123456789'' ! n]
      else String_nat (n div 10) @ [''0123456789'' ! (n mod 10)])"

declare String_nat.simps [simp del]

definition String_int :: "int \<Rightarrow> string" where
  "String_int i = (if i < 0 then CHR ''-'' # String_nat (nat (- i)) else String_nat (nat i))"

text \<open>\<open>s.padStart(2, "0")\<close>\<close>

definition padStart2 :: "string \<Rightarrow> string" where
  "padStart2 s = replicate (2 - length s) CHR ''0'' @ s"

text \<open>\<open>key.split("-")\<close>\<close>

fun split_dash :: "string \<Rightarrow> string list" where
  "split_dash [] = [[]]"
| "split_dash (c # cs) =
     (if c = CHR ''-'' then [] # split_dash cs
      else (c # hd (split_dash cs)) # tl (split_dash cs))"

text \<open>
  \<open>Number(seg)\<close> for a segment of decimal digits (the empty string is \<open>0\<close>). Any
  other segment is \<open>None\<close>, which stands for \<open>NaN\<close>: \<open>dayKey\<close> writes digits only, and
  the other numerals that \<open>Number\<close> reads (signs, exponents, blanks) are not modelled.
\<close>

definition is_digit :: "char \<Rightarrow> bool" where
  "is_digit c = (48 \<le> (of_char c :: nat) \<and> (of_char c :: nat) \<le> 57)"

definition Number_dec :: "string \<Rightarrow> int option" where
  "Number_dec seg =
     (if list_all is_digit seg
      then Some (int (foldl (\<lambda>a c. 10 * a + (of_char c - 48)) 0 seg))
      else None)"

text \<open>The remainder \<open>a % b\<close> of JavaScript has the sign of \<open>a\<close>.\<close>

definition trunc :: "rat \<Rightarrow> int" where
  "trunc q = (if 0 \<le> q then \<lfloor>q\<rfloor> else \<lceil>q\<rceil>)"

definition js_rem :: "rat \<Rightarrow> rat \<Rightarrow> rat" where
  "js_rem a b = a - b * of_int (trunc (a / b))"

definition js_rem_int :: "int \<Rightarrow> int \<Rightarrow> int" where
  "js_rem_int a b = sgn a * (\<bar>a\<bar> mod \<bar>b\<bar>)"

section \<open>Day keys\<close>

text \<open>
\<^verbatim>\<open>
function dayKey(d) {
  const y = d.getFullYear();
  const m = String(d.getMonth() + 1).padStart(2, "0");
  const dd = String(d.getDate()).padStart(2, "0");
  return `${y}-${m}-${dd}`;
}
function wakeBoundaryMins(wakeMins) {
  const m = Math.round(wakeMins);
  return ((m % 1440) + 1440) % 1440;
}
function dayKeyByWake(d, wakeMins) {
  const boundary = wakeBoundaryMins(wakeMins);
  const shifted = new Date(d.getTime() - boundary * 60 * 1000);
  return dayKey(shifted);
}
\<close>
  The other revision (\<open>src/App.tsx\<close>) has the same three functions under the names
  \<open>sleepBoundaryMins\<close> and \<open>dayKeyBySleep\<close>, applied to \<open>sleepMins\<close>.
\<close>

definition dayKeyOf :: "int \<Rightarrow> Date \<Rightarrow> string" where
  "dayKeyOf tz d =
     (let y = getFullYear tz d;
          m = padStart2 (String_int (getMonth tz d + 1));
          dd = padStart2 (String_int (getDate tz d))
      in String_int y @ ''-'' @ m @ ''-'' @ dd)"

definition wakeBoundaryMins :: "rat \<Rightarrow> int" where
  "wakeBoundaryMins w = (let m = Math_round w in js_rem_int (js_rem_int m 1440 + 1440) 1440)"

definition dayKeyByWake :: "int \<Rightarrow> Date \<Rightarrow> rat \<Rightarrow> string" where
  "dayKeyByWake tz d w =
     (let boundary = wakeBoundaryMins w;
          shifted = d - boundary * 60 * 1000
      in dayKeyOf tz shifted)"

definition sleepBoundaryMins :: "rat \<Rightarrow> int" where
  "sleepBoundaryMins sl = (let m = Math_round sl in js_rem_int (js_rem_int m 1440 + 1440) 1440)"

definition dayKeyBySleep :: "int \<Rightarrow> Date \<Rightarrow> rat \<Rightarrow> string" where
  "dayKeyBySleep tz d sl =
     (let boundary = sleepBoundaryMins sl;
          shifted = d - boundary * 60 * 1000
      in dayKeyOf tz shifted)"

section \<open>The pacing model\<close>

text \<open>
\<^verbatim>\<open>
function minutesSinceMidnight(d) { return d.getHours() * 60 + d.getMinutes(); }

function expectedPctAt(d, wakeMins, sleepMins) {
  const start = clamp(Math.round(wakeMins), 0, 1439);
  let end = clamp(Math.round(sleepMins), 0, 2879);
  let now = minutesSinceMidnight(d);
  if (end <= start) end += 1440;
  if (now < start) now += 1440;
  if (now <= start) return 0;
  if (now >= end) return 1;
  const duration = clamp(end - start, 6 * 60, 20 * 60);
  const progress = duration > 0 ? (now - start) / duration : 1;
  const checkpoints = [[0.25, 0.3], [0.5, 0.55], [0.7, 0.75], [0.87, 0.9], [1, 1]];
  let prev = [0, 0];
  for (const [t, pct] of checkpoints) {
    if (progress <= t) {
      const span = t - prev[0];
      const ratio = span ? (progress - prev[0]) / span : 0;
      return prev[1] + (pct - prev[1]) * ratio;
    }
    prev = [t, pct];
  }
  return 1;
}
function expectedMlAt(goalML, d, wakeMins, sleepMins) {
  return Math.round(goalML * expectedPctAt(d, wakeMins, sleepMins));
}
\<close>
\<close>

definition minutesSinceMidnight :: "int \<Rightarrow> Date \<Rightarrow> int" where
  "minutesSinceMidnight tz d = getHours tz d * 60 + getMinutes tz d"

definition checkpoints :: "(rat \<times> rat) list" where
  "checkpoints = [(25 / 100, 3 / 10), (5 / 10, 55 / 100), (7 / 10, 75 / 100), (87 / 100, 9 / 10), (1, 1)]"

text \<open>The \<open>for\<close> loop over the checkpoints, \<open>prev\<close> being the last one passed.\<close>

fun checkpointLoop :: "rat \<Rightarrow> rat \<times> rat \<Rightarrow> (rat \<times> rat) list \<Rightarrow> rat" where
  "checkpointLoop progress prev [] = 1"
| "checkpointLoop progress prev ((t, pct) # rest) =
     (if progress \<le> t then
        (let span = t - fst prev;
             ratio = (if span \<noteq> 0 then (progress - fst prev) / span else 0)
         in snd prev + (pct - snd prev) * ratio)
      else checkpointLoop progress (t, pct) rest)"

text \<open>
  The body of \<open>expectedPctAt\<close> after \<open>now\<close> has been read from the clock: \<open>now0\<close> is
  \<open>minutesSinceMidnight(d)\<close>.
\<close>

definition expectedPctAtMinute :: "int \<Rightarrow> rat \<Rightarrow> rat \<Rightarrow> rat" where
  "expectedPctAtMinute now0 wake sleep =
     (let start = clamp (Math_round wake) 0 1439;
          end0 = clamp (Math_round sleep) 0 2879;
          end = (if end0 \<le> start then end0 + 1440 else end0);
          now = (if now0 < start then now0 + 1440 else now0)
      in if now \<le> start then 0
         else if now \<ge> end then 1
         else
           (let duration = clamp (end - start) (6 * 60) (20 * 60);
                progress = (if duration > 0 then of_int (now - start) / of_int duration else 1)
            in checkpointLoop progress (0, 0) checkpoints))"

definition expectedPctAt :: "int \<Rightarrow> Date \<Rightarrow> rat \<Rightarrow> rat \<Rightarrow> rat" where
  "expectedPctAt tz d wake sleep = expectedPctAtMinute (minutesSinceMidnight tz d) wake sleep"

definition expectedMlAt :: "rat \<Rightarrow> int \<Rightarrow> Date \<Rightarrow> rat \<Rightarrow> rat \<Rightarrow> int" where
  "expectedMlAt goal tz d wake sleep = Math_round (goal * expectedPctAt tz d wake sleep)"

text \<open>
  The local values \<open>start\<close>, \<open>end\<close>, \<open>now\<close> and \<open>duration\<close> of \<open>expectedPctAt\<close> as
  functions of its arguments, for stating its properties: \<open>pacingNow\<close> is the minute of
  the day after the wrap \<open>if (now < start) now += 1440\<close>, so \<open>pacingNow - pacingStart\<close>
  is the time elapsed in the window.
\<close>

definition pacingStart :: "rat \<Rightarrow> int" where
  "pacingStart wake = clamp (Math_round wake) 0 1439"

definition pacingEnd :: "rat \<Rightarrow> rat \<Rightarrow> int" where
  "pacingEnd wake sleep =
     (let end0 = clamp (Math_round sleep) 0 2879
      in if end0 \<le> pacingStart wake then end0 + 1440 else end0)"

definition pacingNow :: "rat \<Rightarrow> int \<Rightarrow> int" where
  "pacingNow wake now0 = (if now0 < pacingStart wake then now0 + 1440 else now0)"

definition pacingDuration :: "rat \<Rightarrow> rat \<Rightarrow> int" where
  "pacingDuration wake sleep = clamp (pacingEnd wake sleep - pacingStart wake) (6 * 60) (20 * 60)"

section \<open>The rhythm windows\<close>

text \<open>
\<^verbatim>\<open>
const getHydrationWindowBoundsForDayKey = (key, wakeMins, sleepMins) => {
  const [y, m, d] = key.split("-").map((n) => Number(n));
  const base = new Date(y, (m || 1) - 1, d || 1, 0, 0, 0, 0);
  const start = new Date(base);
  start.setHours(Math.floor(wakeMins / 60), wakeMins % 60, 0, 0);
  const end = new Date(base);
  end.setHours(Math.floor((sleepMins % 1440) / 60), sleepMins % 60, 0, 0);
  if (sleepMins < wakeMins) end.setDate(end.getDate() + 1);
  return { start, end };
};
\<close>
  A missing or non-numeric month or day falls back to \<open>1\<close> (\<open>undefined\<close> and \<open>NaN\<close> are
  falsy, as is \<open>0\<close>); a non-numeric year makes every date invalid, which is \<open>None\<close>.
\<close>

definition num_or_1 :: "string list \<Rightarrow> nat \<Rightarrow> int" where
  "num_or_1 segs i =
     (if i < length segs
      then (case Number_dec (segs ! i) of None \<Rightarrow> 1 | Some v \<Rightarrow> (if v = 0 then 1 else v))
      else 1)"

definition getHydrationWindowBoundsForDayKey ::
    "int \<Rightarrow> string \<Rightarrow> rat \<Rightarrow> rat \<Rightarrow> (Date \<times> Date) option" where
  "getHydrationWindowBoundsForDayKey tz key wake sleep =
     (let segs = split_dash key in
      case Number_dec (hd segs) of
        None \<Rightarrow> None
      | Some y \<Rightarrow>
          (let base = Date_local tz y (num_or_1 segs 1 - 1) (num_or_1 segs 2);
               start = setHours tz base \<lfloor>wake / 60\<rfloor> (trunc (js_rem wake 60));
               end0 = setHours tz base \<lfloor>js_rem sleep 1440 / 60\<rfloor> (trunc (js_rem sleep 60));
               end = (if sleep < wake then addDays end0 1 else end0)
           in Some (start, end)))"

text \<open>
\<^verbatim>\<open>
const getRhythmWindowIndexForDayKey = (atMs, key, wakeMins, sleepMins) => {
  const { start, end } = getHydrationWindowBoundsForDayKey(key, wakeMins, sleepMins);
  const total = end.getTime() - start.getTime();
  if (total <= 0) return 0;
  if (atMs >= end.getTime()) return 4;
  const elapsed = clamp(atMs - start.getTime(), 0, total - 1);
  const segment = total / 5;
  return Math.min(4, Math.max(0, Math.floor(elapsed / segment)));
};
\<close>
  With invalid dates every comparison is false and the result is \<open>NaN\<close>, here \<open>None\<close>.
\<close>

definition getRhythmWindowIndexForDayKey ::
    "int \<Rightarrow> int \<Rightarrow> string \<Rightarrow> rat \<Rightarrow> rat \<Rightarrow> nat option" where
  "getRhythmWindowIndexForDayKey tz atMs key wake sleep =
     (case getHydrationWindowBoundsForDayKey tz key wake sleep of
        None \<Rightarrow> None
      | Some (start, end) \<Rightarrow>
          (let total = end - start in
           if total \<le> 0 then Some 0
           else if atMs \<ge> end then Some 4
           else
             (let elapsed = clamp (atMs - start) 0 (total - 1);
                  segment = (of_int total :: rat) / 5
              in Some (nat (min 4 (max 0 \<lfloor>of_int elapsed / segment\<rfloor>))))))"

text \<open>
  The two arrays of a day's entry as \<open>updateDailyLogRhythm\<close> and \<open>undo\<close> read them:
\<^verbatim>\<open>
  Array.isArray(e?.windowHitCounts) && e.windowHitCounts.length === 5
    ? [...e.windowHitCounts]
    : Array.isArray(e?.windowHits) && e.windowHits.length === 5
      ? e.windowHits.map((hit) => (hit ? 1 : 0))
      : [0, 0, 0, 0, 0]
  Array.isArray(e?.windowConsumedML) && e.windowConsumedML.length === 5
    ? [...e.windowConsumedML] : [0, 0, 0, 0, 0]
\<close>
\<close>

definition zeros5 :: "rat list" where
  "zeros5 = [0, 0, 0, 0, 0]"

definition readHitCounts :: "DayLog option \<Rightarrow> rat list" where
  "readHitCounts e =
     (case e of
        None \<Rightarrow> zeros5
      | Some day \<Rightarrow>
          (case windowHitCounts day of
             Some xs \<Rightarrow>
               (if length xs = 5 then xs
                else (case windowHits day of
                        Some hs \<Rightarrow> (if length hs = 5 then map (\<lambda>hit. if hit then 1 else 0) hs else zeros5)
                      | None \<Rightarrow> zeros5))
           | None \<Rightarrow>
               (case windowHits day of
                  Some hs \<Rightarrow> (if length hs = 5 then map (\<lambda>hit. if hit then 1 else 0) hs else zeros5)
                | None \<Rightarrow> zeros5)))"

definition readConsumedML :: "DayLog option \<Rightarrow> rat list" where
  "readConsumedML e =
     (case e of
        None \<Rightarrow> zeros5
      | Some day \<Rightarrow>
          (case windowConsumedML day of
             Some xs \<Rightarrow> (if length xs = 5 then xs else zeros5)
           | None \<Rightarrow> zeros5))"

text \<open>
\<^verbatim>\<open>
const updateDailyLogRhythm = (s, atMs, deltaMl) => {
  const at = new Date(atMs);
  const key = dayKeyByWake(at, s.wakeMins);
  const existing = (s.dailyLog || {})[key];
  const windowHitCounts = ...;  const windowConsumedML = ...;     // as above
  const idx = getRhythmWindowIndexForDayKey(atMs, key, s.wakeMins, s.sleepMins);
  if (deltaMl >= 120) {
    windowHitCounts[idx] = Math.max(0, windowHitCounts[idx] + 1);
    windowConsumedML[idx] = Math.max(0, windowConsumedML[idx] + deltaMl);
  }
  return {
    ...(s.dailyLog || {}),
    [key]: { consumedML: totalConsumedFromState(s), goalML: s.goalML, bottleML: s.bottleML,
             carryML: s.carryML, extraML: s.extraML, at: existing?.at ?? atMs,
             windowHitCounts, windowConsumedML, lastEventAt: atMs },
  };
};
\<close>
  The index is one of \<open>0..4\<close> and the arrays have five elements, so the two writes are
  in range; with the \<open>NaN\<close> index no element changes.
\<close>

definition bumpAt :: "nat option \<Rightarrow> rat \<Rightarrow> rat list \<Rightarrow> rat list" where
  "bumpAt idx amount xs =
     (case idx of None \<Rightarrow> xs | Some i \<Rightarrow> xs[i := max 0 (xs ! i + amount)])"

definition updateDailyLogRhythm :: "int \<Rightarrow> AppState \<Rightarrow> int \<Rightarrow> rat \<Rightarrow> (string \<times> DayLog) list" where
  "updateDailyLogRhythm tz s atMs deltaMl =
     (let key = dayKeyByWake tz atMs (wakeMins s);
          existing = map_of (dailyLog s) key;
          hits0 = readHitCounts existing;
          mls0 = readConsumedML existing;
          idx = getRhythmWindowIndexForDayKey tz atMs key (wakeMins s) (sleepMins s);
          hits = (if deltaMl \<ge> 120 then bumpAt idx 1 hits0 else hits0);
          mls = (if deltaMl \<ge> 120 then bumpAt idx deltaMl mls0 else mls0)
      in AList.update key
           \<lparr> consumedML = totalConsumedFromState s,
             log_goalML = goalML s,
             log_bottleML = bottleML s,
             log_carryML = carryML s,
             log_extraML = extraML s,
             log_at = (case existing of Some day \<Rightarrow> log_at day | None \<Rightarrow> atMs),
             windowHitCounts = Some hits,
             windowHits = None,
             windowConsumedML = Some mls,
             lastEventAt = Some atMs \<rparr>
           (dailyLog s))"

section \<open>Mutations\<close>

text \<open>
  Each state updater is a function from the state to the next one. The clock is read
  twice in \<open>setRemaining\<close> and in \<open>addExtra\<close>: \<open>now\<close> is the \<open>new Date()\<close> that gives
  today's key, \<open>eventAt\<close> is the later \<open>Date.now()\<close>.
\<^verbatim>\<open>
function advanceBottle(s) {
  const n = ceilDiv(s.goalML, s.bottleML);
  if (n <= 0) return s;
  let completed = s.completedBottles;
  if (completed < n) completed += 1;
  return { ...s, completedBottles: completed, remaining: 1 };
}
\<close>
\<close>

definition advanceBottle :: "AppState \<Rightarrow> AppState" where
  "advanceBottle s =
     (let n = ceilDiv (goalML s) (bottleML s) in
      if n \<le> 0 then s
      else
        (let completed = (if completedBottles s < of_int n then completedBottles s + 1
                          else completedBottles s)
         in s\<lparr>completedBottles := completed, remaining := 1\<rparr>))"

text \<open>
  The day check that opens both mutations:
\<^verbatim>\<open>
  const today = dayKeyByWake(new Date(), s.wakeMins);
  let ss = s;
  if (ss.dayKey !== today) {
    ss = { ...ss, dayKey: today, completedBottles: 0, remaining: 1, carryML: 0, extraML: 0,
           history: [], celebrate: null };
  }
\<close>
\<close>

definition freshDayIfStale :: "int \<Rightarrow> Date \<Rightarrow> AppState \<Rightarrow> AppState" where
  "freshDayIfStale tz now s =
     (let today = dayKeyByWake tz now (wakeMins s) in
      if dayKey s \<noteq> today
      then s\<lparr>dayKey := today, completedBottles := 0, remaining := 1, carryML := 0, extraML := 0,
             history := [], celebrate := None\<rparr>
      else s)"

text \<open>\<open>xs.slice(-50)\<close>: the last fifty elements.\<close>

definition slice_last :: "nat \<Rightarrow> 'a list \<Rightarrow> 'a list" where
  "slice_last n xs = drop (length xs - n) xs"

text \<open>
\<^verbatim>\<open>
function setRemaining(nextRemaining, meta = {}) {
  setState((s) => {
    ... day check ...
    const prev = ss.remaining;
    const prevCompleted = ss.completedBottles;
    const prevCarry = (ss.carryML || 0);
    const prevExtra = (ss.extraML || 0);
    const beforeConsumed = totalConsumedFromState(ss);
    const eventAt = Date.now();
    const r = clamp(nextRemaining, 0, 1);
    const didEmptyBottle = meta.action === "track" && prev > 0.0001 && r <= 0.0001;
    let nextState = { ...ss, remaining: r };
    if (r <= 0.0001) nextState = { ...advanceBottle(nextState) };
    const afterConsumed = totalConsumedFromState(nextState);
    const pct = nextState.goalML > 0 ? Math.round((afterConsumed / nextState.goalML) * 100) : 0;
    const hitGoal = meta.action === "track" && nextState.goalML > 0 && afterConsumed >= nextState.goalML;
    const rhythmDelta = Math.max(0, afterConsumed - beforeConsumed);
    const rhythmWindowIndex = rhythmDelta >= 120
      ? getRhythmWindowIndexForDayKey(eventAt, dayKeyByWake(new Date(eventAt), ss.wakeMins),
                                      ss.wakeMins, ss.sleepMins)
      : undefined;
    const entry = { t: eventAt, prevRemaining: prev, prevCompleted, prevCarry, prevExtra, ...meta,
      ...(typeof rhythmWindowIndex === "number"
            ? { rhythmWindowIndex, rhythmDelta: 1, rhythmMlDelta: rhythmDelta } : {}) };
    const history = [...(ss.history || []), entry].slice(-50);
    nextState = { ...nextState, history };
    if (meta.action === "track")
      nextState = { ...nextState, dailyLog: updateDailyLogRhythm(nextState, eventAt, rhythmDelta) };
    if (meta.action === "track" && (hitGoal || didEmptyBottle))
      nextState = { ...nextState, celebrate: { type: hitGoal ? "goal" : "bottle",
                                               pct: clamp(pct, 0, 100), consumedML: afterConsumed } };
    return nextState;
  });
}
\<close>
  \<open>meta\<close> is its \<open>action\<close>, absent or a string. The \<open>NaN\<close> index and the absent index
  are both \<open>None\<close>.
\<close>

definition setRemaining ::
    "int \<Rightarrow> Date \<Rightarrow> int \<Rightarrow> rat \<Rightarrow> string option \<Rightarrow> AppState \<Rightarrow> AppState" where
  "setRemaining tz now eventAt nextRemaining meta s =
     (let ss = freshDayIfStale tz now s;
          prev = remaining ss;
          prevCompleted = completedBottles ss;
          prevCarry = num_or (carryML ss) 0;
          prevExtra = num_or (extraML ss) 0;
          beforeConsumed = totalConsumedFromState ss;
          r = clamp nextRemaining 0 1;
          didEmptyBottle = (meta = Some ''track'' \<and> prev > 1 / 10000 \<and> r \<le> 1 / 10000);
          nextState1 = ss\<lparr>remaining := r\<rparr>;
          nextState2 = (if r \<le> 1 / 10000 then advanceBottle nextState1 else nextState1);
          afterConsumed = totalConsumedFromState nextState2;
          pct = (if goalML nextState2 > 0
                 then Math_round (afterConsumed / goalML nextState2 * 100) else 0);
          hitGoal = (meta = Some ''track'' \<and> goalML nextState2 > 0
                     \<and> afterConsumed \<ge> goalML nextState2);
          rhythmDelta = max 0 (afterConsumed - beforeConsumed);
          idx = (if rhythmDelta \<ge> 120
                 then getRhythmWindowIndexForDayKey tz eventAt
                        (dayKeyByWake tz eventAt (wakeMins ss)) (wakeMins ss) (sleepMins ss)
                 else None);
          entry = \<lparr> entry_t = eventAt,
                    prevRemaining = prev,
                    prevCompleted = prevCompleted,
                    prevCarry = prevCarry,
                    prevExtra = prevExtra,
                    entry_action = meta,
                    entry_ml = None,
                    rhythmWindowIndex = idx,
                    rhythmDelta = (if idx = None then None else Some 1),
                    rhythmMlDelta = (if idx = None then None else Some rhythmDelta) \<rparr>;
          nextState3 = nextState2\<lparr>history := slice_last 50 (history ss @ [entry])\<rparr>;
          nextState4 = (if meta = Some ''track''
                        then nextState3\<lparr>dailyLog :=
                               updateDailyLogRhythm tz nextState3 eventAt rhythmDelta\<rparr>
                        else nextState3)
      in if meta = Some ''track'' \<and> (hitGoal \<or> didEmptyBottle)
         then nextState4\<lparr>celebrate :=
                Some \<lparr> cel_type = (if hitGoal then Goal else Bottle),
                       cel_pct = clamp pct 0 100,
                       cel_consumedML = afterConsumed \<rparr>\<rparr>
         else nextState4)"

text \<open>
  The state of \<open>setRemaining\<close> once the level is set and an emptied bottle advanced
  (\<open>nextState\<close> before the history is attached), for stating its effect on the fields.
\<close>

definition levelAfter :: "rat \<Rightarrow> AppState \<Rightarrow> AppState" where
  "levelAfter nextRemaining ss =
     (let r = clamp nextRemaining 0 1;
          nextState1 = ss\<lparr>remaining := r\<rparr>
      in if r \<le> 1 / 10000 then advanceBottle nextState1 else nextState1)"

text \<open>
\<^verbatim>\<open>
function addExtra(ml) {
  setState((s) => {
    ... day check ...
    const prev = ss.remaining;
    const prevCompleted = ss.completedBottles;
    const prevCarry = (ss.carryML || 0);
    const prevExtra = (ss.extraML || 0);
    const nextExtra = clamp((ss.extraML || 0) + ml, 0, 100000);
    const eventAt = Date.now();
    const rhythmWindowIndex = ml >= 120
      ? getRhythmWindowIndexForDayKey(eventAt, dayKeyByWake(new Date(eventAt), ss.wakeMins),
                                      ss.wakeMins, ss.sleepMins)
      : undefined;
    const entry = { t: eventAt, prevRemaining: prev, prevCompleted, prevCarry, prevExtra,
      action: "extra", ml,
      ...(typeof rhythmWindowIndex === "number"
            ? { rhythmWindowIndex, rhythmDelta: 1, rhythmMlDelta: ml } : {}) };
    const history = [...(ss.history || []), entry].slice(-50);
    const next = { ...ss, extraML: nextExtra, history };
    return { ...next, dailyLog: updateDailyLogRhythm(next, eventAt, ml) };
  });
  ...
}
\<close>
\<close>

definition addExtra :: "int \<Rightarrow> Date \<Rightarrow> int \<Rightarrow> rat \<Rightarrow> AppState \<Rightarrow> AppState" where
  "addExtra tz now eventAt amount s =
     (let ss = freshDayIfStale tz now s;
          prev = remaining ss;
          prevCompleted = completedBottles ss;
          prevCarry = num_or (carryML ss) 0;
          prevExtra = num_or (extraML ss) 0;
          nextExtra = clamp (num_or (extraML ss) 0 + amount) 0 100000;
          idx = (if amount \<ge> 120
                 then getRhythmWindowIndexForDayKey tz eventAt
                        (dayKeyByWake tz eventAt (wakeMins ss)) (wakeMins ss) (sleepMins ss)
                 else None);
          entry = \<lparr> entry_t = eventAt,
                    prevRemaining = prev,
                    prevCompleted = prevCompleted,
                    prevCarry = prevCarry,
                    prevExtra = prevExtra,
                    entry_action = Some ''extra'',
                    entry_ml = Some amount,
                    rhythmWindowIndex = idx,
                    rhythmDelta = (if idx = None then None else Some 1),
                    rhythmMlDelta = (if idx = None then None else Some amount) \<rparr>;
          next = ss\<lparr>extraML := nextExtra, history := slice_last 50 (history ss @ [entry])\<rparr>
      in next\<lparr>dailyLog := updateDailyLogRhythm tz next eventAt amount\<rparr>)"

text \<open>
  The history entries that \<open>addExtra\<close> and \<open>setRemaining\<close> record (the \<open>entry\<close> of
  each), as functions of the state \<open>ss\<close> after the day check, for stating the effect
  of the mutations.
\<close>

definition extraEntry :: "int \<Rightarrow> int \<Rightarrow> rat \<Rightarrow> AppState \<Rightarrow> HistoryEntry" where
  "extraEntry tz eventAt amount ss =
     (let idx = (if amount \<ge> 120
                 then getRhythmWindowIndexForDayKey tz eventAt
                        (dayKeyByWake tz eventAt (wakeMins ss)) (wakeMins ss) (sleepMins ss)
                 else None)
      in \<lparr> entry_t = eventAt,
           prevRemaining = remaining ss,
           prevCompleted = completedBottles ss,
           prevCarry = num_or (carryML ss) 0,
           prevExtra = num_or (extraML ss) 0,
           entry_action = Some ''extra'',
           entry_ml = Some amount,
           rhythmWindowIndex = idx,
           rhythmDelta = (if idx = None then None else Some 1),
           rhythmMlDelta = (if idx = None then None else Some amount) \<rparr>)"

definition levelEntry :: "int \<Rightarrow> int \<Rightarrow> rat \<Rightarrow> string option \<Rightarrow> AppState \<Rightarrow> HistoryEntry" where
  "levelEntry tz eventAt nextRemaining meta ss =
     (let rhythmDelta = max 0 (totalConsumedFromState (levelAfter nextRemaining ss)
                               - totalConsumedFromState ss);
          idx = (if rhythmDelta \<ge> 120
                 then getRhythmWindowIndexForDayKey tz eventAt
                        (dayKeyByWake tz eventAt (wakeMins ss)) (wakeMins ss) (sleepMins ss)
                 else None)
      in \<lparr> entry_t = eventAt,
           prevRemaining = remaining ss,
           prevCompleted = completedBottles ss,
           prevCarry = num_or (carryML ss) 0,
           prevExtra = num_or (extraML ss) 0,
           entry_action = meta,
           entry_ml = None,
           rhythmWindowIndex = idx,
           rhythmDelta = (if idx = None then None else Some 1),
           rhythmMlDelta = (if idx = None then None else Some rhythmDelta) \<rparr>)"


text \<open>
\<^verbatim>\<open>
function undo() {
  setState((s) => {
    const h = s.history || [];
    if (h.length === 0) return s;
    const last = h[h.length - 1];
    const nextState = { ...s, remaining: last.prevRemaining, completedBottles: last.prevCompleted,
      carryML: typeof last.prevCarry === "number" ? last.prevCarry : (s.carryML || 0),
      extraML: typeof last.prevExtra === "number" ? last.prevExtra : s.extraML,
      history: h.slice(0, -1) };
    if (typeof last.rhythmWindowIndex === "number") {
      const eventAt = typeof last.t === "number" ? last.t : Date.now();
      const key = dayKeyByWake(new Date(eventAt), nextState.wakeMins);
      const day = (nextState.dailyLog || {})[key];
      const windowHitCounts = ...;  const windowConsumedML = ...;    // as above, from day
      const delta = typeof last.rhythmDelta === "number" ? last.rhythmDelta : 1;
      windowHitCounts[last.rhythmWindowIndex] =
        Math.max(0, windowHitCounts[last.rhythmWindowIndex] - delta);
      const mlDelta = typeof last.rhythmMlDelta === "number" ? last.rhythmMlDelta : 0;
      if (mlDelta > 0)
        windowConsumedML[last.rhythmWindowIndex] =
          Math.max(0, windowConsumedML[last.rhythmWindowIndex] - mlDelta);
      const dailyLog = { ...(nextState.dailyLog || {}),
        [key]: { consumedML: totalConsumedFromState(nextState),
                 goalML: day?.goalML ?? nextState.goalML, bottleML: day?.bottleML ?? nextState.bottleML,
                 carryML: day?.carryML ?? nextState.carryML, extraML: day?.extraML ?? nextState.extraML,
                 at: day?.at ?? eventAt, windowHitCounts, windowConsumedML, lastEventAt: eventAt } };
      return { ...nextState, dailyLog };
    }
    return nextState;
  });
}
\<close>
  The recorded values of an entry are numbers, so the \<open>typeof\<close> tests on \<open>prevCarry\<close>,
  \<open>prevExtra\<close> and \<open>t\<close> succeed. The recorded index has the type \<open>0 | 1 | 2 | 3 | 4\<close>;
  a write at an index beyond the five elements is left out.
\<close>

definition undo :: "int \<Rightarrow> AppState \<Rightarrow> AppState" where
  "undo tz s =
     (let h = history s in
      if h = [] then s
      else
        (let lst = last h;
             nextState = s\<lparr>remaining := prevRemaining lst,
                           completedBottles := prevCompleted lst,
                           carryML := prevCarry lst,
                           extraML := prevExtra lst,
                           history := butlast h\<rparr>
         in case rhythmWindowIndex lst of
              None \<Rightarrow> nextState
            | Some i \<Rightarrow>
                (let eventAt = entry_t lst;
                     key = dayKeyByWake tz eventAt (wakeMins nextState);
                     day = map_of (dailyLog nextState) key;
                     hits0 = readHitCounts day;
                     mls0 = readConsumedML day;
                     delta = (case rhythmDelta lst of Some x \<Rightarrow> x | None \<Rightarrow> 1);
                     hits = hits0[i := max 0 (hits0 ! i - delta)];
                     mlDelta = (case rhythmMlDelta lst of Some x \<Rightarrow> x | None \<Rightarrow> 0);
                     mls = (if mlDelta > 0 then mls0[i := max 0 (mls0 ! i - mlDelta)] else mls0)
                 in nextState\<lparr>dailyLog :=
                      AList.update key
                        \<lparr> consumedML = totalConsumedFromState nextState,
                          log_goalML = (case day of Some e \<Rightarrow> log_goalML e | None \<Rightarrow> goalML nextState),
                          log_bottleML = (case day of Some e \<Rightarrow> log_bottleML e | None \<Rightarrow> bottleML nextState),
                          log_carryML = (case day of Some e \<Rightarrow> log_carryML e | None \<Rightarrow> carryML nextState),
                          log_extraML = (case day of Some e \<Rightarrow> log_extraML e | None \<Rightarrow> extraML nextState),
                          log_at = (case day of Some e \<Rightarrow> log_at e | None \<Rightarrow> eventAt),
                          windowHitCounts = Some hits,
                          windowHits = None,
                          windowConsumedML = Some mls,
                          lastEventAt = Some eventAt \<rparr>
                        (dailyLog nextState)\<rparr>)))"

text \<open>
  The numbers of this model are exact, those of the code are binary64. A sum or a
  difference of two whole numbers between \<open>0\<close> and \<open>2^52\<close> is computed without rounding,
  so that on them \<open>(a + d) - d\<close> is \<open>a\<close> in the code as it is here. On other values the
  code's result can differ from \<open>a\<close> in the last place (\<open>890 + 946.4 - 946.4\<close> is
  \<open>890.0000000000001\<close>), and what \<open>undo\<close> subtracts from a window's volume or count is
  compared with what the mutation added only on such whole numbers.
\<close>

definition wholeNumber :: "rat \<Rightarrow> bool" where
  "wholeNumber v \<longleftrightarrow> 0 \<le> v \<and> v \<le> 4503599627370496 \<and> v = of_int \<lfloor>v\<rfloor>"

section \<open>The day rollover\<close>

text \<open>
\<^verbatim>\<open>
const resetToTodayIfNeeded = () => {
  const today = dayKeyByWake(new Date(), stateRef.current.wakeMins);
  setState((s) => {
    if (s.dayKey === today) return s;
    const prevKey = s.dayKey;
    const consumed = totalConsumedFromState(s);
    const nextLog = { ...(s.dailyLog || {}),
      [prevKey]: { consumedML: consumed, goalML: s.goalML, bottleML: s.bottleML,
                   carryML: Math.round(s.carryML || 0), extraML: Math.round(s.extraML || 0),
                   at: Date.now() } };
    const keys = Object.keys(nextLog).sort();
    const keep = keys.slice(-365);
    const pruned = {};
    for (const k of keep) pruned[k] = nextLog[k];
    const next = { ...s, dailyLog: pruned, dayKey: today, completedBottles: 0, remaining: 1,
                   carryML: 0, extraML: 0, history: [], celebrate: null };
    persistNow(next);
    return next;
  });
};
\<close>
  \<open>sort()\<close> orders strings by their code units, the order of \<open>string\<close> here.
  \<open>src/App.tsx\<close> has the same function with \<open>dayKeyBySleep(new Date(),
  stateRef.current.sleepMins)\<close> and \<open>keys.slice(-14)\<close>; both are instances of
  \<open>rollover\<close>, which takes today's key and the number of keys kept. \<open>atNow\<close> is the
  \<open>Date.now()\<close> of the snapshot; writing the state to storage is not modelled.
\<close>

definition snapshotOf :: "AppState \<Rightarrow> int \<Rightarrow> DayLog" where
  "snapshotOf s atNow =
     \<lparr> consumedML = totalConsumedFromState s,
       log_goalML = goalML s,
       log_bottleML = bottleML s,
       log_carryML = of_int (Math_round (num_or (carryML s) 0)),
       log_extraML = of_int (Math_round (num_or (extraML s) 0)),
       log_at = atNow,
       windowHitCounts = None,
       windowHits = None,
       windowConsumedML = None,
       lastEventAt = None \<rparr>"

definition pruneLog :: "nat \<Rightarrow> (string \<times> DayLog) list \<Rightarrow> (string \<times> DayLog) list" where
  "pruneLog n nextLog =
     (let keys = sort (map fst nextLog);
          keep = slice_last n keys
      in List.map_filter (\<lambda>k. map_option (Pair k) (map_of nextLog k)) keep)"

definition rollover :: "nat \<Rightarrow> string \<Rightarrow> int \<Rightarrow> AppState \<Rightarrow> AppState" where
  "rollover n today atNow s =
     (if dayKey s = today then s
      else
        (let prevKey = dayKey s;
             nextLog = AList.update prevKey (snapshotOf s atNow) (dailyLog s)
         in s\<lparr>dailyLog := pruneLog n nextLog, dayKey := today, completedBottles := 0,
               remaining := 1, carryML := 0, extraML := 0, history := [], celebrate := None\<rparr>))"

definition resetToTodayIfNeeded :: "int \<Rightarrow> Date \<Rightarrow> int \<Rightarrow> AppState \<Rightarrow> AppState" where
  "resetToTodayIfNeeded tz now atNow s = rollover 365 (dayKeyByWake tz now (wakeMins s)) atNow s"


section \<open>The default state\<close>

text \<open>
  The tracked fields of \<open>makeDefaultState()\<close>, whose \<open>dayKey\<close> is
  \<open>dayKeyByWake(new Date(), 480)\<close>.
\<close>

definition makeDefaultState :: "int \<Rightarrow> Date \<Rightarrow> AppState" where
  "makeDefaultState tz now =
     \<lparr> goalML = 2000, bottleML = 500, wakeMins = 480, sleepMins = 1320,
       dayKey = dayKeyByWake tz now 480,
       completedBottles = 0, remaining = 1, carryML = 0, extraML = 0,
       dailyLog = [], history = [], celebrate = None \<rparr>"


text \<open>Noon of 15 January 2024 (UTC), the instant of the worked examples.\<close>

definition noon :: Date where
  "noon = 1705320000000"

text \<open>
  The default state with the sleep time set to 01:00, which the settings screen stores
  as \<open>60 + 1440\<close> because it is not after the wake time.
\<close>

definition lateSleeper :: AppState where
  "lateSleeper = (makeDefaultState 0 noon)\<lparr>sleepMins := 1500\<rparr>"


section \<open>The fill estimate request\<close>

text \<open>
  What \<open>estimatePercentFull\<close> reads of a response: the status, the \<open>retry-after\<close>
  header (\<open>None\<close> for \<open>null\<close>), the body text, and of the body parsed as JSON the
  \<open>error\<close> and \<open>message\<close> fields as the template string prints them (empty when absent
  or falsy) and the \<open>percent_full\<close> and \<open>fill_fraction\<close> fields when they are numbers.
  \<open>res.ok\<close> is a status from 200 to 299.
\<close>

record Response =
  status :: int
  retry_after :: "string option"
  raw :: string
  api_error :: string
  api_message :: string
  percent_full :: "rat option"
  fill_fraction :: "rat option"

definition ok :: "Response \<Rightarrow> bool" where
  "ok res \<longleftrightarrow> 200 \<le> status res \<and> status res \<le> 299"

text \<open>
  The platform of one call. \<open>Number\<close> gives the finite value of a string (\<open>None\<close> for
  \<open>NaN\<close> and the infinities) and \<open>Date_parse\<close> its time in milliseconds (\<open>None\<close> for
  \<open>NaN\<close>); \<open>Date_now\<close>, \<open>Math_random\<close> and \<open>fetch\<close> give what the clock, the random
  generator and the service answer during the attempt of that number (\<open>None\<close>: the
  \<open>fetch\<close> promise rejects); \<open>sleep_aborted\<close> says whether the signal aborts the sleep
  after that attempt.
\<close>

record Platform =
  Number :: "string \<Rightarrow> rat option"
  Date_parse :: "string \<Rightarrow> int option"
  Date_now :: "nat \<Rightarrow> int"
  Math_random :: "nat \<Rightarrow> rat"
  fetch :: "nat \<Rightarrow> Response option"
  sleep_aborted :: "nat \<Rightarrow> bool"

text \<open>
  The errors thrown: \<open>new RateLimitError(message, retryAfterMs)\<close>, \<open>new Error(message)\<close>,
  the rejection of \<open>fetch\<close>, and the \<open>AbortError\<close> of an aborted \<open>sleep\<close>.
\<close>

datatype ScanFailure =
    RateLimitError string "int option"
  | Error string
  | FetchRejected
  | AbortError

text \<open>
\<^verbatim>\<open>
function parseRetryAfterToMs(retryAfter) {
  if (!retryAfter) return null;
  const seconds = Number(retryAfter);
  if (Number.isFinite(seconds) && seconds >= 0) return Math.round(seconds * 1000);
  const asDate = Date.parse(retryAfter);
  if (!Number.isNaN(asDate)) return Math.max(0, asDate - Date.now());
  return null;
}
\<close>
\<close>

definition parseRetryAfterToMs ::
    "(string \<Rightarrow> rat option) \<Rightarrow> (string \<Rightarrow> int option) \<Rightarrow> int \<Rightarrow> string option \<Rightarrow> int option" where
  "parseRetryAfterToMs number date_parse now retryAfter =
     (case retryAfter of
        None \<Rightarrow> None
      | Some h \<Rightarrow>
          if h = [] then None
          else
            (let asDate = (case date_parse h of
                             Some d \<Rightarrow> Some (max 0 (d - now))
                           | None \<Rightarrow> None)
             in case number h of
                  Some seconds \<Rightarrow>
                    if seconds \<ge> 0 then Some (Math_round (seconds * 1000)) else asDate
                | None \<Rightarrow> asDate))"

text \<open>
\<^verbatim>\<open>
async function estimatePercentFull(imageDataUrl, signal) {
  const MAX_ATTEMPTS = 2;
  let lastWaitMs;
  for (let attempt = 1; attempt <= MAX_ATTEMPTS; attempt++) {
    const res = await fetch(FILL_ESTIMATE_URL, { ... });
    const raw = await res.text();
    ... data = raw ? JSON.parse(raw) : null ... obj = data when it is an object ...
    if (res.status === 429) {
      const retryAfterMs = parseRetryAfterToMs(res.headers.get("retry-after"));
      const backoffMs = Math.min(20000, 1200 * Math.pow(2, attempt - 1));
      const jitterMs = Math.floor(Math.random() * 450);
      const waitMs = (retryAfterMs != null && retryAfterMs > 0) ? retryAfterMs : backoffMs + jitterMs;
      lastWaitMs = waitMs;
      if (attempt < MAX_ATTEMPTS) { await sleep(waitMs, signal); continue; }
      throw new RateLimitError(
        `Scan failed (429) - Gemini API rate limit. Please try again in ${Math.max(1, Math.ceil(waitMs / 1000))}s.`,
        waitMs);
    }
    if (!res.ok) {
      const msgFromApi = obj?.error || obj?.message;
      const snippet = typeof raw === "string" ? raw.slice(0, 220) : "";
      throw new Error(
        `Scan failed (${res.status}) ${msgFromApi ? `- ${msgFromApi}` : snippet ? `- ${snippet}` : ""}`.trim());
    }
    const percentFull = typeof obj?.percent_full === "number" ? obj.percent_full : null;
    const fillFrac = typeof obj?.fill_fraction === "number" ? obj.fill_fraction : null;
    if (percentFull != null) return clamp(percentFull, 0, 100);
    if (fillFrac != null) return clamp(fillFrac * 100, 0, 100);
    throw new Error("Scan returned an unexpected response shape");
  }
  throw new RateLimitError("Scan failed (rate limited). Please try again.", lastWaitMs);
}
\<close>
  The result comes with the number of calls of \<open>fetch\<close> and the list of the sleeps begun.
\<close>

definition MAX_ATTEMPTS :: nat where
  "MAX_ATTEMPTS = 2"

definition backoffMs :: "nat \<Rightarrow> int" where
  "backoffMs attempt = min 20000 (1200 * 2 ^ (attempt - 1))"

definition jitterMs :: "Platform \<Rightarrow> nat \<Rightarrow> int" where
  "jitterMs p attempt = \<lfloor>Math_random p attempt * 450\<rfloor>"

definition waitMs :: "Platform \<Rightarrow> nat \<Rightarrow> Response \<Rightarrow> int" where
  "waitMs p attempt res =
     (case parseRetryAfterToMs (Number p) (Date_parse p) (Date_now p attempt) (retry_after res) of
        Some retryAfterMs \<Rightarrow>
          if retryAfterMs > 0 then retryAfterMs else backoffMs attempt + jitterMs p attempt
      | None \<Rightarrow> backoffMs attempt + jitterMs p attempt)"

text \<open>\<open>s.trim()\<close>, for the white space of ASCII.\<close>

definition is_space :: "char \<Rightarrow> bool" where
  "is_space c \<longleftrightarrow> c \<in> set [CHR '' '', CHR 0x09, CHR 0x0A, CHR 0x0B, CHR 0x0C, CHR 0x0D]"

definition String_trim :: "string \<Rightarrow> string" where
  "String_trim s = rev (dropWhile is_space (rev (dropWhile is_space s)))"

definition rateLimitMessage :: "int \<Rightarrow> string" where
  "rateLimitMessage w =
     ''Scan failed (429) - Gemini API rate limit. Please try again in ''
       @ String_int (max 1 \<lceil>(of_int w :: rat) / 1000\<rceil>) @ ''s.''"

definition errorMessage :: "Response \<Rightarrow> string" where
  "errorMessage res =
     (let msgFromApi = (if api_error res \<noteq> [] then api_error res else api_message res);
          snippet = take 220 (raw res)
      in String_trim
           (''Scan failed ('' @ String_int (status res) @ '') ''
              @ (if msgFromApi \<noteq> [] then ''- '' @ msgFromApi
                 else if snippet \<noteq> [] then ''- '' @ snippet else [])))"

function estimateFrom ::
    "Platform \<Rightarrow> nat \<Rightarrow> int list \<Rightarrow> int option \<Rightarrow> nat \<times> int list \<times> (ScanFailure + rat)" where
  "estimateFrom p attempt slept lastWaitMs =
     (if attempt \<le> MAX_ATTEMPTS then
        (case fetch p attempt of
           None \<Rightarrow> (attempt, slept, Inl FetchRejected)
         | Some res \<Rightarrow>
             if status res = 429 then
               (if attempt < MAX_ATTEMPTS then
                  (if sleep_aborted p attempt
                   then (attempt, slept @ [waitMs p attempt res], Inl AbortError)
                   else estimateFrom p (attempt + 1) (slept @ [waitMs p attempt res])
                          (Some (waitMs p attempt res)))
                else (attempt, slept,
                      Inl (RateLimitError (rateLimitMessage (waitMs p attempt res))
                             (Some (waitMs p attempt res)))))
             else if \<not> ok res then (attempt, slept, Inl (Error (errorMessage res)))
             else
               (case percent_full res of
                  Some percentFull \<Rightarrow> (attempt, slept, Inr (clamp percentFull 0 100))
                | None \<Rightarrow>
                    (case fill_fraction res of
                       Some fillFrac \<Rightarrow> (attempt, slept, Inr (clamp (fillFrac * 100) 0 100))
                     | None \<Rightarrow>
                         (attempt, slept,
                          Inl (Error ''Scan returned an unexpected response shape'')))))
      else (attempt - 1, slept,
            Inl (RateLimitError ''Scan failed (rate limited). Please try again.'' lastWaitMs)))"
  by pat_completeness auto

termination
  by (relation "measure (\<lambda>(p, attempt, slept, lastWaitMs). MAX_ATTEMPTS + 1 - attempt)") auto

definition estimatePercentFull :: "Platform \<Rightarrow> nat \<times> int list \<times> (ScanFailure + rat)" where
  "estimatePercentFull p = estimateFrom p 1 [] None"

declare estimateFrom.simps [simp del]

text \<open>
  Two services for the examples: one that answers 429 to every request, the first time
  with \<open>Retry-After: 2\<close>, and one that answers 500 with an error message; the random
  generator gives \<open>1/2\<close>.
\<close>

definition limited :: "string option \<Rightarrow> Response" where
  "limited h = \<lparr> status = 429, retry_after = h, raw = [], api_error = [], api_message = [],
                 percent_full = None, fill_fraction = None \<rparr>"

definition serverError :: Response where
  "serverError = \<lparr> status = 500, retry_after = None, raw = ''{\"error\":\"overloaded\"}'',
                   api_error = ''overloaded'', api_message = [],
                   percent_full = None, fill_fraction = None \<rparr>"

definition busyPlatform :: Platform where
  "busyPlatform =
     \<lparr> Number = (\<lambda>h. map_option of_int (Number_dec h)),
       Date_parse = (\<lambda>h. None),
       Date_now = (\<lambda>n. noon),
       Math_random = (\<lambda>n. 1 / 2),
       fetch = (\<lambda>n. Some (limited (if n = 1 then Some ''2'' else None))),
       sleep_aborted = (\<lambda>n. False) \<rparr>"

definition serverErrorPlatform :: Platform where
  "serverErrorPlatform = busyPlatform\<lparr>fetch := (\<lambda>n. Some serverError)\<rparr>"

section \<open>Basic facts\<close>

text \<open>Floors and ceilings of numeral fractions, for evaluating the model.\<close>

lemma floor_rat_numeral_div [simp]:
  "\<lfloor>numeral a / numeral b :: rat\<rfloor> = numeral a div numeral b"
  by (metis floor_divide_of_int_eq of_int_numeral)

lemma floor_rat_one_div [simp]:
  "\<lfloor>1 / numeral b :: rat\<rfloor> = 1 div numeral b"
  by (metis floor_divide_of_int_eq of_int_1 of_int_numeral)

lemma floor_rat_minus_numeral_div [simp]:
  "\<lfloor>- (numeral a / numeral b) :: rat\<rfloor> = - numeral a div numeral b"
  by (metis divide_minus_left floor_divide_of_int_eq of_int_neg_numeral of_int_numeral)

lemma ceiling_rat_numeral_div [simp]:
  "\<lceil>numeral a / numeral b :: rat\<rceil> = - (- numeral a div numeral b)"
  by (metis ceiling_def floor_divide_of_int_eq minus_divide_left of_int_neg_numeral of_int_numeral)

lemma num_or_zero [simp]: "num_or x 0 = x"
  by (simp add: num_or_def)

lemma clamp_lower: "a \<le> clamp n a b"
  by (simp add: clamp_def)

lemma clamp_upper: "a \<le> b \<Longrightarrow> clamp n a b \<le> b"
  by (simp add: clamp_def)

lemma Math_round_nonneg: "0 \<le> x \<Longrightarrow> 0 \<le> Math_round x"
  by (simp add: Math_round_def)

section \<open>The consumed total\<close>

text \<open>
  C1. For a state with \<open>goalML > 0\<close>, \<open>bottleML > 0\<close> and \<open>remaining\<close> in \<open>[0, 1]\<close>,
  the derived total is the minimum of \<open>goalML\<close> and the sum of the completed bottles
  (the count clamped to \<open>[0, ceil (goalML / bottleML)]\<close>), the rounded volume drunk from
  the current bottle, and the rounded carry and extra volumes, each clamped to
  \<open>[0, 100000]\<close>; and it lies between \<open>0\<close> and \<open>goalML\<close>.
\<close>

theorem totalConsumed_formula_and_bounds:
  assumes "0 < goalML s" and "0 < bottleML s"
    and "0 \<le> remaining s" and "remaining s \<le> 1"
  shows "totalConsumedFromState s =
           min (goalML s)
             (clamp (completedBottles s) 0 (of_int \<lceil>goalML s / bottleML s\<rceil>) * bottleML s
              + of_int (Math_round ((1 - remaining s) * bottleML s))
              + of_int (clamp (Math_round (carryML s)) 0 100000)
              + of_int (clamp (Math_round (extraML s)) 0 100000))
         \<and> 0 \<le> totalConsumedFromState s
         \<and> totalConsumedFromState s \<le> goalML s"
proof -
  let ?c = "clamp (completedBottles s) 0 (of_int \<lceil>goalML s / bottleML s\<rceil>) * bottleML s"
  let ?r = "Math_round ((1 - remaining s) * bottleML s)"
  let ?k = "clamp (Math_round (carryML s)) 0 100000"
  let ?e = "clamp (Math_round (extraML s)) 0 100000"
  have eq: "totalConsumedFromState s
              = min (goalML s) (?c + of_int ?r + of_int ?k + of_int ?e)"
    using assms(2) by (simp add: totalConsumedFromState_def ceilDiv_def Let_def)
  have c0: "0 \<le> ?c"
    using assms(2) clamp_lower [of 0 "completedBottles s"] by simp
  have "0 \<le> (1 - remaining s) * bottleML s"
    using assms(2,4) by simp
  then have r0: "0 \<le> ?r"
    by (rule Math_round_nonneg)
  have k0: "0 \<le> ?k" and e0: "0 \<le> ?e"
    by (rule clamp_lower)+
  have "0 \<le> ?c + of_int ?r + of_int ?k + of_int ?e"
    using c0 r0 k0 e0 by simp
  then have "0 \<le> min (goalML s) (?c + of_int ?r + of_int ?k + of_int ?e)"
    using assms(1) by simp
  then show ?thesis
    unfolding eq by simp
qed

theorem totalConsumed_formula_and_bounds_witness:
  "0 < goalML ((makeDefaultState 0 noon)\<lparr>remaining := 1 / 2, extraML := 250\<rparr>)
   \<and> 0 < bottleML ((makeDefaultState 0 noon)\<lparr>remaining := 1 / 2, extraML := 250\<rparr>)
   \<and> totalConsumedFromState ((makeDefaultState 0 noon)\<lparr>remaining := 1 / 2, extraML := 250\<rparr>) = 500
   \<and> 0 \<le> totalConsumedFromState ((makeDefaultState 0 noon)\<lparr>remaining := 1 / 2, extraML := 250\<rparr>)
   \<and> totalConsumedFromState ((makeDefaultState 0 noon)\<lparr>remaining := 1 / 2, extraML := 250\<rparr>)
        \<le> goalML ((makeDefaultState 0 noon)\<lparr>remaining := 1 / 2, extraML := 250\<rparr>)"
  using totalConsumed_formula_and_bounds
          [of "(makeDefaultState 0 noon)\<lparr>remaining := 1 / 2, extraML := 250\<rparr>"]
  by (simp add: makeDefaultState_def clamp_def Math_round_def)

section \<open>Day keys of the two revisions\<close>

lemma js_rem_int_nonneg: "0 \<le> a \<Longrightarrow> js_rem_int a 1440 = a mod 1440"
  by (cases "a = 0") (simp_all add: js_rem_int_def)

lemma js_rem_int_neg: "a < 0 \<Longrightarrow> js_rem_int a 1440 = - ((- a) mod 1440)"
  by (simp add: js_rem_int_def)

lemma js_rem_int_norm: "js_rem_int (js_rem_int m 1440 + 1440) 1440 = m mod 1440"
proof (cases "0 \<le> m")
  case True
  have "0 \<le> m mod 1440 + 1440"
    using pos_mod_sign [of 1440 m] by linarith
  then show ?thesis
    using True by (simp add: js_rem_int_nonneg)
next
  case False
  then have neg: "m < 0" by simp
  have b: "0 \<le> (- m) mod 1440" "(- m) mod 1440 < 1440"
    by simp_all
  then have pos: "0 \<le> - ((- m) mod 1440) + 1440"
    by linarith
  have "(- ((- m) mod 1440) + 1440) mod 1440 = (- ((- m) mod 1440)) mod 1440"
    by simp
  also have "\<dots> = (- (- m)) mod 1440"
    by (simp add: mod_minus_eq)
  finally have "(- ((- m) mod 1440) + 1440) mod 1440 = m mod 1440"
    by simp
  then show ?thesis
    by (simp only: js_rem_int_neg [OF neg] js_rem_int_nonneg [OF pos])
qed

lemma wakeBoundaryMins_mod: "wakeBoundaryMins w = Math_round w mod 1440"
  by (simp add: wakeBoundaryMins_def Let_def js_rem_int_norm)

lemma sleepBoundaryMins_mod: "sleepBoundaryMins sl = Math_round sl mod 1440"
  by (simp add: sleepBoundaryMins_def Let_def js_rem_int_norm)

lemma civil_from_days_0: "civil_from_days 0 = (1970, 1, 1)"
  unfolding civil_from_days_def Let_def by simp

lemma civil_from_days_m1: "civil_from_days (- 1) = (1969, 12, 31)"
  unfolding civil_from_days_def Let_def by simp

lemma String_int_examples:
  "String_int 1970 = ''1970''" "String_int 1969 = ''1969''" "String_int 1 = ''1''"
  "String_int 12 = ''12''" "String_int 31 = ''31''"
  by code_simp+

lemma dayKeyOf_day0: "localDay tz d = 0 \<Longrightarrow> dayKeyOf tz d = ''1970-01-01''"
  unfolding dayKeyOf_def getFullYear_def getMonth_def getDate_def Let_def
  by (simp add: civil_from_days_0 String_int_examples padStart2_def)

lemma dayKeyOf_day_before: "localDay tz d = - 1 \<Longrightarrow> dayKeyOf tz d = ''1969-12-31''"
  unfolding dayKeyOf_def getFullYear_def getMonth_def getDate_def Let_def
  by (simp add: civil_from_days_m1 String_int_examples padStart2_def)

lemma localDay_before:
  assumes "0 < k" and "k < 1440"
  shows "localDay tz (- k * 60000 - tz) = - 1"
proof -
  have "(- k * 60000) div 86400000 = - 1"
  proof (rule int_div_pos_eq [where r = "86400000 - k * 60000"])
    show "- k * 60000 = 86400000 * - 1 + (86400000 - k * 60000)" by simp
    show "0 \<le> 86400000 - k * 60000" using assms by simp
    show "86400000 - k * 60000 < 86400000" using assms by simp
  qed
  then show ?thesis
    by (simp add: localDay_def)
qed

lemma dayKeys_differ_at:
  assumes "a < b" and "0 \<le> a" and "b < 1440"
  shows "dayKeyOf tz (a * 60000 - tz - a * 60 * 1000) \<noteq> dayKeyOf tz (a * 60000 - tz - b * 60 * 1000)"
proof -
  have "localDay tz (a * 60000 - tz - a * 60 * 1000) = 0"
    by (simp add: localDay_def)
  then have k0: "dayKeyOf tz (a * 60000 - tz - a * 60 * 1000) = ''1970-01-01''"
    by (rule dayKeyOf_day0)
  have "localDay tz (a * 60000 - tz - b * 60 * 1000) = localDay tz (- (b - a) * 60000 - tz)"
    by (rule arg_cong [where f = "localDay tz"]) (simp add: algebra_simps)
  also have "\<dots> = - 1"
    using assms by (intro localDay_before) simp_all
  finally have k1: "dayKeyOf tz (a * 60000 - tz - b * 60 * 1000) = ''1969-12-31''"
    by (rule dayKeyOf_day_before)
  show ?thesis
    unfolding k0 k1 by simp
qed

text \<open>
  C4. \<open>dayKeyByWake\<close> (\<open>src/unnamed/part_001\<close>) is the calendar date of the instant moved
  back by the wake minute of the day, \<open>dayKeyBySleep\<close> (\<open>src/App.tsx\<close>) that of the
  instant moved back by the sleep minute of the day; whenever the two minutes of the day
  differ, some instant gets different keys from the two revisions.
\<close>

theorem dayKey_wake_sleep_differ:
  "(\<forall>d. dayKeyByWake tz d (wakeMins s)
          = dayKeyOf tz (d - (Math_round (wakeMins s) mod 1440) * 60 * 1000))
   \<and> (\<forall>d. dayKeyBySleep tz d (sleepMins s)
          = dayKeyOf tz (d - (Math_round (sleepMins s) mod 1440) * 60 * 1000))
   \<and> (Math_round (wakeMins s) mod 1440 \<noteq> Math_round (sleepMins s) mod 1440
        \<longrightarrow> (\<exists>d. dayKeyByWake tz d (wakeMins s) \<noteq> dayKeyBySleep tz d (sleepMins s)))"
proof (intro conjI allI impI)
  fix d
  show "dayKeyByWake tz d (wakeMins s)
          = dayKeyOf tz (d - (Math_round (wakeMins s) mod 1440) * 60 * 1000)"
    by (simp add: dayKeyByWake_def wakeBoundaryMins_mod Let_def)
  show "dayKeyBySleep tz d (sleepMins s)
          = dayKeyOf tz (d - (Math_round (sleepMins s) mod 1440) * 60 * 1000)"
    by (simp add: dayKeyBySleep_def sleepBoundaryMins_mod Let_def)
next
  let ?a = "Math_round (wakeMins s) mod 1440" and ?b = "Math_round (sleepMins s) mod 1440"
  assume ne: "?a \<noteq> ?b"
  have ra: "0 \<le> ?a" "?a < 1440" and rb: "0 \<le> ?b" "?b < 1440"
    by simp_all
  have wk: "dayKeyByWake tz d (wakeMins s) = dayKeyOf tz (d - ?a * 60 * 1000)" for d
    by (simp add: dayKeyByWake_def wakeBoundaryMins_mod Let_def)
  have sl: "dayKeyBySleep tz d (sleepMins s) = dayKeyOf tz (d - ?b * 60 * 1000)" for d
    by (simp add: dayKeyBySleep_def sleepBoundaryMins_mod Let_def)
  consider "?a < ?b" | "?b < ?a"
    using ne by linarith
  then show "\<exists>d. dayKeyByWake tz d (wakeMins s) \<noteq> dayKeyBySleep tz d (sleepMins s)"
  proof cases
    case 1
    from dayKeys_differ_at [OF 1 ra(1) rb(2), of tz] show ?thesis
      unfolding wk sl by blast
  next
    case 2
    from dayKeys_differ_at [OF 2 rb(1) ra(2), of tz] show ?thesis
      unfolding wk sl by (metis (no_types))
  qed
qed

lemma dayKeyByWake_noon: "dayKeyByWake 0 noon 480 = ''2024-01-15''"
  by code_simp

lemma dayKeyBySleep_noon: "dayKeyBySleep 0 noon 1320 = ''2024-01-14''"
  by code_simp

theorem dayKey_wake_sleep_differ_witness:
  "Math_round (wakeMins (makeDefaultState 0 noon)) mod 1440
     \<noteq> Math_round (sleepMins (makeDefaultState 0 noon)) mod 1440
   \<and> (\<exists>d. dayKeyByWake 0 d (wakeMins (makeDefaultState 0 noon))
            \<noteq> dayKeyBySleep 0 d (sleepMins (makeDefaultState 0 noon)))
   \<and> dayKeyByWake 0 noon (wakeMins (makeDefaultState 0 noon))
        \<noteq> dayKeyBySleep 0 noon (sleepMins (makeDefaultState 0 noon))"
proof -
  have ne: "Math_round (wakeMins (makeDefaultState 0 noon)) mod 1440
              \<noteq> Math_round (sleepMins (makeDefaultState 0 noon)) mod 1440"
    by (simp add: makeDefaultState_def Math_round_def)
  have "dayKeyByWake 0 noon (wakeMins (makeDefaultState 0 noon))
          \<noteq> dayKeyBySleep 0 noon (sleepMins (makeDefaultState 0 noon))"
    by (simp add: makeDefaultState_def dayKeyByWake_noon dayKeyBySleep_noon)
  then show ?thesis
    using ne dayKey_wake_sleep_differ [of 0 "makeDefaultState 0 noon"] by blast
qed

section \<open>The pacing curve\<close>

lemma int_div_bounds:
  fixes y b c :: int
  assumes "0 \<le> y" and "y < c * b" and "0 < b"
  shows "0 \<le> y div b \<and> y div b < c"
proof
  show "0 \<le> y div b"
    using assms(1,3) by (simp add: pos_imp_zdiv_nonneg_iff)
  have "b * (y div b) \<le> y"
    using pos_mod_sign [OF assms(3), of y] mult_div_mod_eq [of b y] by linarith
  then have "b * (y div b) < b * c"
    using assms(2) by (simp add: mult.commute)
  then show "y div b < c"
    using assms(3) by simp
qed

lemma minutesSinceMidnight_range:
  "0 \<le> minutesSinceMidnight tz d \<and> minutesSinceMidnight tz d < 1440"
proof -
  define x where "x = d + tz"
  have h: "0 \<le> x mod 86400000 div 3600000 \<and> x mod 86400000 div 3600000 < 24"
    by (rule int_div_bounds) simp_all
  have m: "0 \<le> x mod 3600000 div 60000 \<and> x mod 3600000 div 60000 < 60"
    by (rule int_div_bounds) simp_all
  show ?thesis
    unfolding minutesSinceMidnight_def getHours_def getMinutes_def x_def [symmetric]
    using h m by linarith
qed

lemma checkpointLoop_closed:
  "checkpointLoop p (0, 0) checkpoints =
     (if p \<le> 1 / 4 then 6 * p / 5
      else if p \<le> 7 / 10 then p + 1 / 20
      else if p \<le> 87 / 100 then (60 * p + 9) / 68
      else if p \<le> 1 then (10 * p + 3) / 13
      else 1)"
  by (simp add: checkpoints_def Let_def field_simps)

lemma checkpointLoop_mono:
  assumes "p \<le> q"
  shows "checkpointLoop p (0, 0) checkpoints \<le> checkpointLoop q (0, 0) checkpoints"
  using assms unfolding checkpointLoop_closed
  by (simp split: if_splits add: field_simps)

lemma checkpointLoop_range:
  assumes "0 \<le> p"
  shows "0 \<le> checkpointLoop p (0, 0) checkpoints \<and> checkpointLoop p (0, 0) checkpoints \<le> 1"
  using assms unfolding checkpointLoop_closed
  by (simp split: if_splits add: field_simps)

lemma checkpointLoop_pos:
  assumes "0 < p"
  shows "0 < checkpointLoop p (0, 0) checkpoints"
  using assms unfolding checkpointLoop_closed
  by (simp split: if_splits add: field_simps)

lemma pacingDuration_pos: "0 < pacingDuration wake sleep"
  by (simp add: pacingDuration_def clamp_def)

lemma expectedPctAtMinute_unfold:
  "expectedPctAtMinute now0 wake sleep =
     (if pacingNow wake now0 \<le> pacingStart wake then 0
      else if pacingEnd wake sleep \<le> pacingNow wake now0 then 1
      else checkpointLoop
             (of_int (pacingNow wake now0 - pacingStart wake) / of_int (pacingDuration wake sleep))
             (0, 0) checkpoints)"
  using pacingDuration_pos [of wake sleep]
  by (simp add: expectedPctAtMinute_def pacingNow_def pacingStart_def pacingEnd_def
      pacingDuration_def Let_def)

lemma expectedPctAtMinute_range:
  "0 \<le> expectedPctAtMinute n wake sleep \<and> expectedPctAtMinute n wake sleep \<le> 1"
proof -
  have "0 \<le> (of_int (pacingNow wake n - pacingStart wake) :: rat) / of_int (pacingDuration wake sleep)"
    if "\<not> pacingNow wake n \<le> pacingStart wake"
    using that pacingDuration_pos [of wake sleep] by simp
  then show ?thesis
    unfolding expectedPctAtMinute_unfold using checkpointLoop_range by auto
qed

lemma expectedPctAtMinute_mono:
  assumes "pacingNow wake n1 \<le> pacingNow wake n2"
  shows "expectedPctAtMinute n1 wake sleep \<le> expectedPctAtMinute n2 wake sleep"
proof -
  let ?a = "pacingNow wake n1" and ?b = "pacingNow wake n2"
  let ?s = "pacingStart wake" and ?e = "pacingEnd wake sleep"
  let ?d = "pacingDuration wake sleep"
  consider "?a \<le> ?s" | "?s < ?a" "?e \<le> ?b" | "?s < ?a" "?b < ?e"
    by linarith
  then show ?thesis
  proof cases
    case 1
    then have "expectedPctAtMinute n1 wake sleep = 0"
      by (simp add: expectedPctAtMinute_unfold)
    then show ?thesis
      using expectedPctAtMinute_range [of n2 wake sleep] by simp
  next
    case 2
    then have "expectedPctAtMinute n2 wake sleep = 1"
      using assms by (simp add: expectedPctAtMinute_unfold)
    then show ?thesis
      using expectedPctAtMinute_range [of n1 wake sleep] by simp
  next
    case 3
    have "(of_int (?a - ?s) :: rat) / of_int ?d \<le> of_int (?b - ?s) / of_int ?d"
      using assms pacingDuration_pos [of wake sleep] by (simp add: divide_right_mono)
    then have "checkpointLoop (of_int (?a - ?s) / of_int ?d) (0, 0) checkpoints
               \<le> checkpointLoop (of_int (?b - ?s) / of_int ?d) (0, 0) checkpoints"
      by (rule checkpointLoop_mono)
    then show ?thesis
      using 3 assms by (simp add: expectedPctAtMinute_unfold)
  qed
qed

lemma expectedPctAtMinute_zero_iff:
  assumes "0 \<le> n"
  shows "expectedPctAtMinute n wake sleep = 0 \<longleftrightarrow> n = pacingStart wake"
proof -
  have s: "pacingStart wake \<le> 1439"
    by (simp add: pacingStart_def clamp_def)
  show ?thesis
  proof (cases "n = pacingStart wake")
    case True
    then show ?thesis
      by (simp add: expectedPctAtMinute_unfold pacingNow_def)
  next
    case False
    then have gt: "pacingStart wake < pacingNow wake n"
      using assms s by (simp add: pacingNow_def)
    have "0 < expectedPctAtMinute n wake sleep"
    proof (cases "pacingEnd wake sleep \<le> pacingNow wake n")
      case True
      then show ?thesis using gt by (simp add: expectedPctAtMinute_unfold)
    next
      case False
      have "0 < (of_int (pacingNow wake n - pacingStart wake) :: rat) / of_int (pacingDuration wake sleep)"
        using gt pacingDuration_pos [of wake sleep] by simp
      then show ?thesis
        using gt False checkpointLoop_pos by (simp add: expectedPctAtMinute_unfold)
    qed
    then show ?thesis
      using False by simp
  qed
qed

text \<open>
  C5, as the code has it. For every wake and sleep setting the expected fraction lies in
  \<open>[0, 1]\<close>; it does not decrease as the time elapsed in the window (the minute of the
  day, taken past midnight when it is before the wake minute) grows; it is \<open>0\<close> exactly
  at the wake minute; and it is \<open>1\<close> from the sleep minute on. An instant earlier in the
  day than the wake minute counts as late in the window begun the day before, so its
  fraction is positive, not \<open>0\<close>.
\<close>

theorem expectedPctAt_properties:
  "0 \<le> expectedPctAt tz d wake sleep \<and> expectedPctAt tz d wake sleep \<le> 1
   \<and> (pacingNow wake (minutesSinceMidnight tz d) \<le> pacingNow wake (minutesSinceMidnight tz d')
        \<longrightarrow> expectedPctAt tz d wake sleep \<le> expectedPctAt tz d' wake sleep)
   \<and> (expectedPctAt tz d wake sleep = 0 \<longleftrightarrow> minutesSinceMidnight tz d = pacingStart wake)
   \<and> (minutesSinceMidnight tz d < pacingStart wake \<longrightarrow> 0 < expectedPctAt tz d wake sleep)
   \<and> (pacingEnd wake sleep \<le> pacingNow wake (minutesSinceMidnight tz d)
        \<longrightarrow> expectedPctAt tz d wake sleep = 1)"
proof -
  let ?n = "minutesSinceMidnight tz d"
  have n0: "0 \<le> ?n"
    using minutesSinceMidnight_range [of tz d] by simp
  have zero: "expectedPctAtMinute ?n wake sleep = 0 \<longleftrightarrow> ?n = pacingStart wake"
    using n0 by (rule expectedPctAtMinute_zero_iff)
  have pos: "0 < expectedPctAtMinute ?n wake sleep" if "?n < pacingStart wake"
    using that zero expectedPctAtMinute_range [of ?n wake sleep] by linarith
  have one: "expectedPctAtMinute ?n wake sleep = 1"
    if "pacingEnd wake sleep \<le> pacingNow wake ?n"
  proof (cases "pacingNow wake ?n \<le> pacingStart wake")
    case True
    have "pacingStart wake < pacingEnd wake sleep"
      unfolding pacingEnd_def pacingStart_def clamp_def Let_def by (simp split: if_splits) linarith
    then show ?thesis using that True by simp
  next
    case False
    then show ?thesis using that by (simp add: expectedPctAtMinute_unfold)
  qed
  show ?thesis
    unfolding expectedPctAt_def
    using expectedPctAtMinute_range [of ?n wake sleep] expectedPctAtMinute_mono zero pos one
    by blast
qed

lemma minutesSinceMidnight_examples:
  "minutesSinceMidnight 0 (noon - 18000000) = 420"
  "minutesSinceMidnight 0 (noon - 14400000) = 480"
  "minutesSinceMidnight 0 (noon - 7200000) = 600"
  "minutesSinceMidnight 0 (noon + 1800000) = 750"
  "minutesSinceMidnight 0 (noon + 39600000) = 1380"
  by (simp_all add: minutesSinceMidnight_def getHours_def getMinutes_def noon_def)

lemma pacing_examples:
  "pacingStart 480 = 480" "pacingEnd 480 1320 = 1320" "pacingDuration 480 1320 = 840"
  by (simp_all add: pacingStart_def pacingEnd_def pacingDuration_def clamp_def Math_round_def)

theorem expectedPctAt_properties_witness:
  "pacingNow 480 (minutesSinceMidnight 0 (noon - 7200000))
     \<le> pacingNow 480 (minutesSinceMidnight 0 (noon + 1800000))
   \<and> expectedPctAt 0 (noon - 7200000) 480 1320 \<le> expectedPctAt 0 (noon + 1800000) 480 1320
   \<and> minutesSinceMidnight 0 (noon - 14400000) = pacingStart 480
   \<and> expectedPctAt 0 (noon - 14400000) 480 1320 = 0
   \<and> minutesSinceMidnight 0 (noon - 18000000) < pacingStart 480
   \<and> 0 < expectedPctAt 0 (noon - 18000000) 480 1320
   \<and> pacingEnd 480 1320 \<le> pacingNow 480 (minutesSinceMidnight 0 (noon + 39600000))
   \<and> expectedPctAt 0 (noon + 39600000) 480 1320 = 1"
  using expectedPctAt_properties [of 0 "noon - 7200000" 480 1320 "noon + 1800000"]
    expectedPctAt_properties [of 0 "noon - 14400000" 480 1320 noon]
    expectedPctAt_properties [of 0 "noon - 18000000" 480 1320 noon]
    expectedPctAt_properties [of 0 "noon + 39600000" 480 1320 noon]
  by (simp add: minutesSinceMidnight_examples pacing_examples pacingNow_def)

text \<open>
  At 07:00, an hour before a wake time of 08:00 (sleep at 22:00), the expected fraction
  is \<open>1\<close>.
\<close>

theorem expectedPctAt_before_wake_counterexample:
  "minutesSinceMidnight 0 (noon - 18000000) = 420
   \<and> 420 < pacingStart 480
   \<and> expectedPctAt 0 (noon - 18000000) 480 1320 = 1"
  by (simp add: expectedPctAt_def expectedPctAtMinute_unfold minutesSinceMidnight_examples
      pacing_examples pacingNow_def)

text \<open>
  C6, as the code has it. With wake at 480, sleep at 1320 and a goal of 2000 ml, at
  12:30 the progress is \<open>270 / 840\<close>, between the checkpoints at 25% and 50%; the linear
  interpolation between \<open>(25%, 30%)\<close> and \<open>(50%, 55%)\<close> gives \<open>13 / 35\<close> of the goal
  (37.1%), and the expected volume is 743 ml.
\<close>

theorem expectedMlAt_half_past_twelve:
  assumes "minutesSinceMidnight tz d = 750"
  shows "expectedPctAt tz d 480 1320
           = 3 / 10 + (55 / 100 - 3 / 10) * ((270 / 840 - 25 / 100) / (5 / 10 - 25 / 100))
         \<and> expectedPctAt tz d 480 1320 = 13 / 35
         \<and> expectedMlAt 2000 tz d 480 1320 = 743"
  using assms
  by (simp add: expectedMlAt_def expectedPctAt_def expectedPctAtMinute_unfold pacing_examples
      pacingNow_def checkpointLoop_closed Math_round_def)

theorem expectedMlAt_half_past_twelve_witness:
  "minutesSinceMidnight 0 (noon + 1800000) = 750
   \<and> expectedPctAt 0 (noon + 1800000) 480 1320 = 13 / 35
   \<and> expectedMlAt 2000 0 (noon + 1800000) 480 1320 = 743"
  using expectedMlAt_half_past_twelve [of 0 "noon + 1800000"]
  by (simp add: minutesSinceMidnight_examples)

theorem expectedMlAt_half_past_twelve_counterexample:
  "expectedMlAt 2000 0 (noon + 1800000) 480 1320 = 743
   \<and> expectedMlAt 2000 0 (noon + 1800000) 480 1320 \<noteq> 626
   \<and> expectedPctAt 0 (noon + 1800000) 480 1320 = 13 / 35
   \<and> (313 / 1000 :: rat) + 1 / 20 < 13 / 35"
  by (simp add: expectedMlAt_def expectedPctAt_def expectedPctAtMinute_unfold
      minutesSinceMidnight_examples pacing_examples pacingNow_def checkpointLoop_closed
      Math_round_def)

section \<open>The rhythm windows: index and hits\<close>

lemma length_readHitCounts [simp]: "length (readHitCounts e) = 5"
  by (simp add: readHitCounts_def zeros5_def split: option.splits)

lemma length_readConsumedML [simp]: "length (readConsumedML e) = 5"
  by (simp add: readConsumedML_def zeros5_def split: option.splits)

lemma getRhythmWindowIndex_le_4:
  "getRhythmWindowIndexForDayKey tz atMs key wake sleep = Some i \<Longrightarrow> i \<le> 4"
  by (auto simp: getRhythmWindowIndexForDayKey_def Let_def split: option.splits if_splits)

lemma getRhythmWindowIndex_formula:
  assumes b: "getHydrationWindowBoundsForDayKey tz key wake sleep = Some (start, end)"
    and pos: "start < end"
  shows "getRhythmWindowIndexForDayKey tz atMs key wake sleep
           = Some (nat (clamp \<lfloor>(of_int (atMs - start) :: rat) / (of_int (end - start) / 5)\<rfloor> 0 4))"
proof -
  let ?total = "end - start"
  let ?seg = "(of_int ?total :: rat) / 5"
  have seg: "0 < ?seg" using pos by simp
  consider "end \<le> atMs" | "atMs < start" | "start \<le> atMs" "atMs < end"
    by linarith
  then show ?thesis
  proof cases
    case 1
    then have "5 * ?seg \<le> of_int (atMs - start)"
      by simp
    then have "5 \<le> (of_int (atMs - start) :: rat) / ?seg"
      using seg by (simp add: pos_le_divide_eq)
    then have "5 \<le> \<lfloor>(of_int (atMs - start) :: rat) / ?seg\<rfloor>"
      by (simp add: le_floor_iff)
    then have "clamp \<lfloor>(of_int (atMs - start) :: rat) / ?seg\<rfloor> 0 4 = 4"
      by (simp add: clamp_def)
    then show ?thesis
      using b pos 1 by (simp add: getRhythmWindowIndexForDayKey_def Let_def)
  next
    case 2
    then have "(of_int (atMs - start) :: rat) / ?seg < 0"
      using seg by (simp add: divide_neg_pos)
    then have "\<lfloor>(of_int (atMs - start) :: rat) / ?seg\<rfloor> < 0"
      by (simp add: floor_less_iff)
    then have c: "clamp \<lfloor>(of_int (atMs - start) :: rat) / ?seg\<rfloor> 0 4 = 0"
      by (simp add: clamp_def)
    have e: "clamp (atMs - start) 0 (?total - 1) = 0"
      using 2 pos by (simp add: clamp_def)
    show ?thesis
      using b pos 2 unfolding getRhythmWindowIndexForDayKey_def Let_def c
      by (simp add: e)
  next
    case 3
    then have e: "clamp (atMs - start) 0 (?total - 1) = atMs - start"
      by (simp add: clamp_def)
    show ?thesis
      using b pos 3 unfolding getRhythmWindowIndexForDayKey_def Let_def
      by (simp add: e clamp_def)
  qed
qed


lemma map_of_updateDailyLogRhythm:
  "map_of (updateDailyLogRhythm tz s atMs deltaMl) k =
     (if k = dayKeyByWake tz atMs (wakeMins s)
      then map_of (updateDailyLogRhythm tz s atMs deltaMl) (dayKeyByWake tz atMs (wakeMins s))
      else map_of (dailyLog s) k)"
  by (simp add: updateDailyLogRhythm_def Let_def update_conv')

lemma readHitCounts_updateDailyLogRhythm:
  "readHitCounts (map_of (updateDailyLogRhythm tz s atMs deltaMl) (dayKeyByWake tz atMs (wakeMins s)))
     = (if 120 \<le> deltaMl
        then bumpAt (getRhythmWindowIndexForDayKey tz atMs (dayKeyByWake tz atMs (wakeMins s))
                       (wakeMins s) (sleepMins s)) 1
               (readHitCounts (map_of (dailyLog s) (dayKeyByWake tz atMs (wakeMins s))))
        else readHitCounts (map_of (dailyLog s) (dayKeyByWake tz atMs (wakeMins s))))"
  by (simp add: updateDailyLogRhythm_def Let_def update_conv' readHitCounts_def [of "Some _"]
      bumpAt_def split: option.splits)

lemma readConsumedML_updateDailyLogRhythm:
  "readConsumedML (map_of (updateDailyLogRhythm tz s atMs deltaMl) (dayKeyByWake tz atMs (wakeMins s)))
     = (if 120 \<le> deltaMl
        then bumpAt (getRhythmWindowIndexForDayKey tz atMs (dayKeyByWake tz atMs (wakeMins s))
                       (wakeMins s) (sleepMins s)) deltaMl
               (readConsumedML (map_of (dailyLog s) (dayKeyByWake tz atMs (wakeMins s))))
        else readConsumedML (map_of (dailyLog s) (dayKeyByWake tz atMs (wakeMins s))))"
  by (simp add: updateDailyLogRhythm_def Let_def update_conv' readConsumedML_def [of "Some _"]
      bumpAt_def split: option.splits)

text \<open>
  The settings screens store a sleep time that is not after the wake time as the minutes
  plus 1440 (\<open>sleepMins: base <= s.wakeMins ? base + 1440 : base\<close>), and \<open>expectedPctAt\<close>
  reads such a value as a time on the next day. \<open>getHydrationWindowBoundsForDayKey\<close>
  reduces the hours modulo a day and adds the day only under \<open>sleepMins < wakeMins\<close>, so
  for a stored value of 1440 or more the end of the window is put on the day of its start.
\<close>

lemma evening_key: "dayKeyByWake 0 (noon + 28800000) 480 = ''2024-01-15''"
  by code_simp

lemma evening_bounds:
  "getHydrationWindowBoundsForDayKey 0 ''2024-01-15'' 480 1500 = Some (1705305600000, 1705280400000)"
  by code_simp

lemma evening_index:
  "getRhythmWindowIndexForDayKey 0 (noon + 28800000) ''2024-01-15'' 480 1500 = Some 0"
  by code_simp

lemma evening_index_all:
  "\<forall>atMs. getRhythmWindowIndexForDayKey 0 atMs ''2024-01-15'' 480 1500 = Some 0"
  by (simp add: getRhythmWindowIndexForDayKey_def evening_bounds)

lemma evening_index_60:
  "getRhythmWindowIndexForDayKey 0 (noon + 28800000) ''2024-01-15'' 480 60 = Some 3"
  by code_simp

lemma evening_pct: "expectedPctAt 0 (noon + 28800000) 480 1500 = 873 / 1156"
  by code_simp

lemma evening_claimed:
  "nat (clamp \<lfloor>(of_int (noon + 28800000 - 1705305600000) :: rat)
                  / (of_int ((1500 - 480) * 60000) / 5)\<rfloor> 0 4) = 3"
  by (simp add: noon_def clamp_def)

lemma evening_hits:
  "readHitCounts (map_of (dailyLog (addExtra 0 (noon + 28800000) (noon + 28800000) 250 lateSleeper))
       ''2024-01-15'') = [1, 0, 0, 0, 0]"
  by code_simp

text \<open>
  C9 at wake 08:00 and sleep 01:00, stored as 480 and 1500, for an event at 20:00 on
  15 January 2024 (UTC). The window from wake to sleep lasts 17 hours, of which 12 have
  passed, so the segment is \<open>floor (12 / 3.4) = 3\<close>. The code puts the end of the window
  at 01:00 of the same day, seven hours before its start, and answers segment \<open>0\<close>, as
  it does for every event under this schedule; the 250 ml of the event are counted in
  segment \<open>0\<close>. With the sleep time written as 60 the same function answers \<open>3\<close>, and
  \<open>expectedPctAt\<close> takes 1500 as 01:00 of the next day.
\<close>

theorem rhythm_index_sleep_after_midnight:
  "dayKeyByWake 0 (noon + 28800000) 480 = ''2024-01-15''
   \<and> getHydrationWindowBoundsForDayKey 0 ''2024-01-15'' 480 1500
       = Some (1705305600000, 1705280400000)
   \<and> getRhythmWindowIndexForDayKey 0 (noon + 28800000) ''2024-01-15'' 480 1500 = Some 0
   \<and> (\<forall>atMs. getRhythmWindowIndexForDayKey 0 atMs ''2024-01-15'' 480 1500 = Some 0)
   \<and> nat (clamp \<lfloor>(of_int (noon + 28800000 - 1705305600000) :: rat)
                    / (of_int ((1500 - 480) * 60000) / 5)\<rfloor> 0 4) = 3
   \<and> getRhythmWindowIndexForDayKey 0 (noon + 28800000) ''2024-01-15'' 480 60 = Some 3
   \<and> expectedPctAt 0 (noon + 28800000) 480 1500 = 873 / 1156
   \<and> readHitCounts (map_of (dailyLog
         (addExtra 0 (noon + 28800000) (noon + 28800000) 250 lateSleeper)) ''2024-01-15'')
       = [1, 0, 0, 0, 0]"
  by (intro conjI evening_key evening_bounds evening_index evening_claimed evening_index_60
      evening_pct evening_hits evening_index_all)

section \<open>Setting the level\<close>

lemma freshDayIfStale_same:
  "dayKeyByWake tz now (wakeMins s) = dayKey s \<Longrightarrow> freshDayIfStale tz now s = s"
  by (simp add: freshDayIfStale_def Let_def)

lemma setRemaining_fields:
  "goalML (setRemaining tz now eventAt nr meta s) = goalML (levelAfter nr (freshDayIfStale tz now s))"
  "bottleML (setRemaining tz now eventAt nr meta s) = bottleML (levelAfter nr (freshDayIfStale tz now s))"
  "remaining (setRemaining tz now eventAt nr meta s) = remaining (levelAfter nr (freshDayIfStale tz now s))"
  "completedBottles (setRemaining tz now eventAt nr meta s) = completedBottles (levelAfter nr (freshDayIfStale tz now s))"
  "carryML (setRemaining tz now eventAt nr meta s) = carryML (levelAfter nr (freshDayIfStale tz now s))"
  "extraML (setRemaining tz now eventAt nr meta s) = extraML (levelAfter nr (freshDayIfStale tz now s))"
  "wakeMins (setRemaining tz now eventAt nr meta s) = wakeMins (levelAfter nr (freshDayIfStale tz now s))"
  "sleepMins (setRemaining tz now eventAt nr meta s) = sleepMins (levelAfter nr (freshDayIfStale tz now s))"
  "dayKey (setRemaining tz now eventAt nr meta s) = dayKey (levelAfter nr (freshDayIfStale tz now s))"
  unfolding setRemaining_def levelAfter_def Let_def
  by (simp_all add: if_distrib [of goalML] if_distrib [of bottleML] if_distrib [of remaining]
      if_distrib [of completedBottles] if_distrib [of carryML] if_distrib [of extraML]
      if_distrib [of wakeMins] if_distrib [of sleepMins] if_distrib [of dayKey])


lemma setRemaining_celebrate_track:
  "celebrate (setRemaining tz now eventAt nr (Some ''track'') s) =
     (let ss = freshDayIfStale tz now s;
          nextState = levelAfter nr ss;
          afterConsumed = totalConsumedFromState nextState;
          hitGoal = (goalML nextState > 0 \<and> afterConsumed \<ge> goalML nextState);
          didEmptyBottle = (remaining ss > 1 / 10000 \<and> clamp nr 0 1 \<le> 1 / 10000)
      in if hitGoal \<or> didEmptyBottle
         then Some \<lparr> cel_type = (if hitGoal then Goal else Bottle),
                      cel_pct = clamp (if goalML nextState > 0
                                       then Math_round (afterConsumed / goalML nextState * 100)
                                       else 0) 0 100,
                      cel_consumedML = afterConsumed \<rparr>
         else celebrate nextState)"
  unfolding setRemaining_def levelAfter_def Let_def
  by (simp add: if_distrib [of celebrate])

lemma levelAfter_empty:
  assumes "goalML x = 2000" and "bottleML x = 500"
  shows "levelAfter 0 x =
           x\<lparr>remaining := 1,
             completedBottles := (if completedBottles x < 4 then completedBottles x + 1
                                  else completedBottles x)\<rparr>"
  using assms by (simp add: levelAfter_def advanceBottle_def ceilDiv_def clamp_def Let_def)

lemma totalConsumed_full_bottles:
  assumes "goalML x = 2000" and "bottleML x = 500" and "remaining x = 1"
    and "carryML x = 0" and "extraML x = 0" and "0 \<le> completedBottles x" and "completedBottles x \<le> 4"
  shows "totalConsumedFromState x = 500 * completedBottles x"
  using assms by (simp add: totalConsumedFromState_def ceilDiv_def clamp_def Math_round_def Let_def)


lemma track_empty_step:
  assumes day: "dayKeyByWake tz now (wakeMins s) = dayKey s"
    and cfg: "goalML s = 2000" "bottleML s = 500" "remaining s = 1" "carryML s = 0" "extraML s = 0"
    and k: "completedBottles s = of_nat j" "j < 4"
  shows "goalML (setRemaining tz now eventAt 0 (Some ''track'') s) = 2000"
    and "bottleML (setRemaining tz now eventAt 0 (Some ''track'') s) = 500"
    and "remaining (setRemaining tz now eventAt 0 (Some ''track'') s) = 1"
    and "carryML (setRemaining tz now eventAt 0 (Some ''track'') s) = 0"
    and "extraML (setRemaining tz now eventAt 0 (Some ''track'') s) = 0"
    and "wakeMins (setRemaining tz now eventAt 0 (Some ''track'') s) = wakeMins s"
    and "dayKey (setRemaining tz now eventAt 0 (Some ''track'') s) = dayKey s"
    and "completedBottles (setRemaining tz now eventAt 0 (Some ''track'') s) = of_nat (Suc j)"
    and "totalConsumedFromState (setRemaining tz now eventAt 0 (Some ''track'') s) = 500 * of_nat (Suc j)"
    and "celebrate (setRemaining tz now eventAt 0 (Some ''track'') s)
           = Some \<lparr> cel_type = (if j = 3 then Goal else Bottle),
                    cel_pct = 25 * int (Suc j),
                    cel_consumedML = 500 * of_nat (Suc j) \<rparr>"
proof -
  let ?y = "setRemaining tz now eventAt 0 (Some ''track'') s"
  have lt: "completedBottles s < 4"
    using k by simp
  have la: "levelAfter 0 s = s\<lparr>remaining := 1, completedBottles := of_nat (Suc j)\<rparr>"
    using lt k(1) by (simp add: levelAfter_empty [OF cfg(1,2)] add.commute)
  note f = setRemaining_fields [of tz now eventAt 0 "Some ''track''" s,
      unfolded freshDayIfStale_same [OF day] la]
  show g: "goalML ?y = 2000" and b: "bottleML ?y = 500" and r: "remaining ?y = 1"
    and c: "carryML ?y = 0" and e: "extraML ?y = 0"
    and "wakeMins ?y = wakeMins s" and "dayKey ?y = dayKey s"
    and cb: "completedBottles ?y = of_nat (Suc j)"
    using f cfg by simp_all
  have tot_la: "totalConsumedFromState (s\<lparr>remaining := 1, completedBottles := of_nat (Suc j)\<rparr>)
                  = 500 * of_nat (Suc j)"
    using cfg k(2) by (intro totalConsumed_full_bottles [THEN trans]) simp_all
  show "totalConsumedFromState ?y = 500 * of_nat (Suc j)"
    using g b r c e cb k(2) by (intro totalConsumed_full_bottles [THEN trans]) simp_all
  have j4: "j = 0 \<or> j = 1 \<or> j = 2 \<or> j = 3"
    using k(2) by linarith
  have pct: "clamp (Math_round (500 * of_nat (Suc j) / 2000 * 100)) 0 100 = 25 * int (Suc j)"
    using j4 by (auto simp: Math_round_def clamp_def)
  have hit: "(2000 \<le> 500 * (of_nat (Suc j) :: rat)) = (j = 3)"
    using j4 by auto
  show "celebrate ?y = Some \<lparr> cel_type = (if j = 3 then Goal else Bottle),
                    cel_pct = 25 * int (Suc j),
                    cel_consumedML = 500 * of_nat (Suc j) \<rparr>"
    unfolding setRemaining_celebrate_track freshDayIfStale_same [OF day] la Let_def tot_la
    using cfg pct hit by (simp add: clamp_def)
qed

section \<open>Undo\<close>

lemma slice_last_snoc: "slice_last (Suc n) (xs @ [e]) = slice_last n xs @ [e]"
  by (simp add: slice_last_def Suc_diff_le)

lemma slice_last_all: "length xs \<le> n \<Longrightarrow> slice_last n xs = xs"
  by (simp add: slice_last_def)

lemma slice_last_50_snoc: "slice_last 50 (xs @ [e]) = slice_last 49 xs @ [e]"
  using slice_last_snoc [of 49 xs e] by simp

lemma undo_nonempty_fields:
  assumes "history s \<noteq> []"
  shows "remaining (undo tz s) = prevRemaining (last (history s))"
    and "completedBottles (undo tz s) = prevCompleted (last (history s))"
    and "carryML (undo tz s) = prevCarry (last (history s))"
    and "extraML (undo tz s) = prevExtra (last (history s))"
    and "history (undo tz s) = butlast (history s)"
  using assms unfolding undo_def Let_def
  by (simp_all split: option.splits)

lemma undo_dailyLog_other:
  assumes "k \<noteq> dayKeyByWake tz (entry_t (last (history s))) (wakeMins s)"
  shows "map_of (dailyLog (undo tz s)) k = map_of (dailyLog s) k"
  using assms unfolding undo_def Let_def
  by (simp add: update_conv' split: option.splits)

lemma undo_dailyLog_no_rhythm:
  assumes "rhythmWindowIndex (last (history s)) = None"
  shows "dailyLog (undo tz s) = dailyLog s"
  using assms unfolding undo_def Let_def
  by simp

lemma undo_hits:
  assumes "history s \<noteq> []" and "rhythmWindowIndex (last (history s)) = Some i"
  shows "readHitCounts (map_of (dailyLog (undo tz s)) (dayKeyByWake tz (entry_t (last (history s))) (wakeMins s)))
           = (readHitCounts (map_of (dailyLog s) (dayKeyByWake tz (entry_t (last (history s))) (wakeMins s))))
               [i := max 0 (readHitCounts (map_of (dailyLog s) (dayKeyByWake tz (entry_t (last (history s))) (wakeMins s))) ! i
                            - (case rhythmDelta (last (history s)) of Some x \<Rightarrow> x | None \<Rightarrow> 1))]"
  using assms unfolding undo_def Let_def
  by (simp add: update_conv' readHitCounts_def [of "Some _"])

lemma undo_mls:
  assumes "history s \<noteq> []" and "rhythmWindowIndex (last (history s)) = Some i"
  shows "readConsumedML (map_of (dailyLog (undo tz s)) (dayKeyByWake tz (entry_t (last (history s))) (wakeMins s)))
           = (let mls0 = readConsumedML (map_of (dailyLog s) (dayKeyByWake tz (entry_t (last (history s))) (wakeMins s)));
                  mlDelta = (case rhythmMlDelta (last (history s)) of Some x \<Rightarrow> x | None \<Rightarrow> 0)
              in if mlDelta > 0 then mls0[i := max 0 (mls0 ! i - mlDelta)] else mls0)"
  using assms unfolding undo_def Let_def
  by (simp add: update_conv' readConsumedML_def [of "Some _"])


lemma map_of_updateDailyLogRhythm_other:
  "k \<noteq> dayKeyByWake tz atMs (wakeMins s)
   \<Longrightarrow> map_of (updateDailyLogRhythm tz s atMs deltaMl) k = map_of (dailyLog s) k"
  by (simp add: updateDailyLogRhythm_def Let_def update_conv')

text \<open>
  A state \<open>x\<close> as a mutation leaves it: its last history entry \<open>e\<close> records the event at
  \<open>eventAt\<close> with volume \<open>d\<close>, and its log is that of \<open>x0\<close> after \<open>updateDailyLogRhythm\<close>.
\<close>

lemma undo_after_logged:
  fixes x x0 :: AppState and tz eventAt :: int and d :: rat
  defines "key \<equiv> dayKeyByWake tz eventAt (wakeMins x0)"
  defines "idx \<equiv> (if 120 \<le> d
                   then getRhythmWindowIndexForDayKey tz eventAt key (wakeMins x0) (sleepMins x0)
                   else None)"
  assumes hist: "history x = hs @ [e]"
    and e: "entry_t e = eventAt" "rhythmWindowIndex e = idx"
      "rhythmDelta e = (if idx = None then None else Some 1)"
      "rhythmMlDelta e = (if idx = None then None else Some d)"
    and w: "wakeMins x = wakeMins x0"
    and log: "dailyLog x = updateDailyLogRhythm tz x0 eventAt d"
  shows "list_all (\<lambda>v. 0 \<le> v) (readHitCounts (map_of (dailyLog x0) key))
           \<Longrightarrow> readHitCounts (map_of (dailyLog (undo tz x)) key)
                 = readHitCounts (map_of (dailyLog x0) key)"
    and "list_all (\<lambda>v. 0 \<le> v) (readConsumedML (map_of (dailyLog x0) key))
           \<Longrightarrow> readConsumedML (map_of (dailyLog (undo tz x)) key)
                 = readConsumedML (map_of (dailyLog x0) key)"
    and "k \<noteq> key \<Longrightarrow> map_of (dailyLog (undo tz x)) k = map_of (dailyLog x0) k"
proof -
  have ne: "history x \<noteq> []" and lst: "last (history x) = e"
    using hist by simp_all
  have key': "dayKeyByWake tz (entry_t (last (history x))) (wakeMins x) = key"
    by (simp add: lst e(1) w key_def)
  have key'': "dayKeyByWake tz eventAt (wakeMins x) = key"
    by (simp add: w key_def)
  show "map_of (dailyLog (undo tz x)) k = map_of (dailyLog x0) k" if "k \<noteq> key"
    using that undo_dailyLog_other [of k tz x] map_of_updateDailyLogRhythm_other [of k tz eventAt x0 d]
    by (simp add: key' log key_def)
  show "readHitCounts (map_of (dailyLog (undo tz x)) key) = readHitCounts (map_of (dailyLog x0) key)"
    if nn: "list_all (\<lambda>v. 0 \<le> v) (readHitCounts (map_of (dailyLog x0) key))"
  proof (cases idx)
    case None
    then have "dailyLog (undo tz x) = dailyLog x"
      by (intro undo_dailyLog_no_rhythm) (simp add: lst e(2))
    then have "readHitCounts (map_of (dailyLog (undo tz x)) key)
                 = readHitCounts (map_of (updateDailyLogRhythm tz x0 eventAt d)
                     (dayKeyByWake tz eventAt (wakeMins x0)))"
      by (simp add: log key_def)
    also have "\<dots> = readHitCounts (map_of (dailyLog x0) key)"
      using None
      by (simp add: readHitCounts_updateDailyLogRhythm idx_def key_def bumpAt_def split: if_splits)
    finally show ?thesis .
  next
    case (Some i)
    then have big: "120 \<le> d"
      and gi: "getRhythmWindowIndexForDayKey tz eventAt key (wakeMins x0) (sleepMins x0) = Some i"
      by (auto simp: idx_def split: if_splits)
    have i5: "i < 5"
      using getRhythmWindowIndex_le_4 [OF gi] by simp
    let ?old = "readHitCounts (map_of (dailyLog x0) key)"
    have oi: "0 \<le> ?old ! i"
      using nn i5 by (simp add: list_all_length)
    have mid: "readHitCounts (map_of (dailyLog x) key) = ?old[i := max 0 (?old ! i + 1)]"
      unfolding log key_def readHitCounts_updateDailyLogRhythm
      using big gi by (simp add: key_def bumpAt_def)
    have "readHitCounts (map_of (dailyLog (undo tz x)) key)
            = (readHitCounts (map_of (dailyLog x) key))
                [i := max 0 (readHitCounts (map_of (dailyLog x) key) ! i - 1)]"
      using undo_hits [OF ne, of i tz] Some by (simp add: key'' lst e)
    also have "\<dots> = ?old[i := ?old ! i]"
      unfolding mid using i5 oi by simp
    finally show ?thesis
      by simp
  qed
  show "readConsumedML (map_of (dailyLog (undo tz x)) key) = readConsumedML (map_of (dailyLog x0) key)"
    if nn: "list_all (\<lambda>v. 0 \<le> v) (readConsumedML (map_of (dailyLog x0) key))"
  proof (cases idx)
    case None
    then have "dailyLog (undo tz x) = dailyLog x"
      by (intro undo_dailyLog_no_rhythm) (simp add: lst e(2))
    then have "readConsumedML (map_of (dailyLog (undo tz x)) key)
                 = readConsumedML (map_of (updateDailyLogRhythm tz x0 eventAt d)
                     (dayKeyByWake tz eventAt (wakeMins x0)))"
      by (simp add: log key_def)
    also have "\<dots> = readConsumedML (map_of (dailyLog x0) key)"
      using None
      by (simp add: readConsumedML_updateDailyLogRhythm idx_def key_def bumpAt_def split: if_splits)
    finally show ?thesis .
  next
    case (Some i)
    then have big: "120 \<le> d"
      and gi: "getRhythmWindowIndexForDayKey tz eventAt key (wakeMins x0) (sleepMins x0) = Some i"
      by (auto simp: idx_def split: if_splits)
    have i5: "i < 5"
      using getRhythmWindowIndex_le_4 [OF gi] by simp
    let ?old = "readConsumedML (map_of (dailyLog x0) key)"
    have oi: "0 \<le> ?old ! i"
      using nn i5 by (simp add: list_all_length)
    have mid: "readConsumedML (map_of (dailyLog x) key) = ?old[i := max 0 (?old ! i + d)]"
      unfolding log key_def readConsumedML_updateDailyLogRhythm
      using big gi by (simp add: key_def bumpAt_def)
    have "readConsumedML (map_of (dailyLog (undo tz x)) key)
            = (readConsumedML (map_of (dailyLog x) key))
                [i := max 0 (readConsumedML (map_of (dailyLog x) key) ! i - d)]"
      using undo_mls [OF ne, of i tz] Some big by (simp add: key'' lst e Let_def)
    also have "\<dots> = ?old[i := ?old ! i]"
      unfolding mid using i5 oi big by simp
    finally show ?thesis
      by simp
  qed
qed

section \<open>Undo after one mutation\<close>

lemma addExtra_same_day:
  assumes "dayKeyByWake tz now (wakeMins s) = dayKey s"
  shows "addExtra tz now eventAt amount s =
           (let next = s\<lparr>extraML := clamp (extraML s + amount) 0 100000,
                         history := slice_last 50 (history s @ [extraEntry tz eventAt amount s])\<rparr>
            in next\<lparr>dailyLog := updateDailyLogRhythm tz next eventAt amount\<rparr>)"
  unfolding addExtra_def freshDayIfStale_same [OF assms] extraEntry_def Let_def
  by simp

lemma setRemaining_history:
  "history (setRemaining tz now eventAt nr meta s)
     = slice_last 50 (history (freshDayIfStale tz now s)
                      @ [levelEntry tz eventAt nr meta (freshDayIfStale tz now s)])"
  unfolding setRemaining_def levelEntry_def levelAfter_def Let_def
  by (simp add: if_distrib [of history])

lemma setRemaining_dailyLog_track:
  "dailyLog (setRemaining tz now eventAt nr (Some ''track'') s)
     = (let ss = freshDayIfStale tz now s;
            nextState = (levelAfter nr ss)\<lparr>history :=
                           slice_last 50 (history ss @ [levelEntry tz eventAt nr (Some ''track'') ss])\<rparr>
        in updateDailyLogRhythm tz nextState eventAt
             (max 0 (totalConsumedFromState (levelAfter nr ss) - totalConsumedFromState ss)))"
  unfolding setRemaining_def levelEntry_def levelAfter_def Let_def
  by (simp add: if_distrib [of dailyLog])


lemma levelAfter_frame:
  "goalML (levelAfter nr ss) = goalML ss" "bottleML (levelAfter nr ss) = bottleML ss"
  "wakeMins (levelAfter nr ss) = wakeMins ss" "sleepMins (levelAfter nr ss) = sleepMins ss"
  "dayKey (levelAfter nr ss) = dayKey ss" "carryML (levelAfter nr ss) = carryML ss"
  "extraML (levelAfter nr ss) = extraML ss" "dailyLog (levelAfter nr ss) = dailyLog ss"
  "history (levelAfter nr ss) = history ss" "celebrate (levelAfter nr ss) = celebrate ss"
  by (simp_all add: levelAfter_def advanceBottle_def Let_def)

lemma extraEntry_fields:
  "entry_t (extraEntry tz eventAt amount ss) = eventAt"
  "prevRemaining (extraEntry tz eventAt amount ss) = remaining ss"
  "prevCompleted (extraEntry tz eventAt amount ss) = completedBottles ss"
  "prevCarry (extraEntry tz eventAt amount ss) = carryML ss"
  "prevExtra (extraEntry tz eventAt amount ss) = extraML ss"
  "entry_action (extraEntry tz eventAt amount ss) = Some ''extra''"
  "entry_ml (extraEntry tz eventAt amount ss) = Some amount"
  by (simp_all add: extraEntry_def Let_def)

lemma levelEntry_fields:
  "entry_t (levelEntry tz eventAt nr meta ss) = eventAt"
  "prevRemaining (levelEntry tz eventAt nr meta ss) = remaining ss"
  "prevCompleted (levelEntry tz eventAt nr meta ss) = completedBottles ss"
  "prevCarry (levelEntry tz eventAt nr meta ss) = carryML ss"
  "prevExtra (levelEntry tz eventAt nr meta ss) = extraML ss"
  "entry_action (levelEntry tz eventAt nr meta ss) = meta"
  by (simp_all add: levelEntry_def Let_def)

lemma undo_after_addExtra:
  fixes tz now eventAt :: int and amount :: rat and s :: AppState
  assumes day: "dayKeyByWake tz now (wakeMins s) = dayKey s"
  defines "u \<equiv> undo tz (addExtra tz now eventAt amount s)"
  defines "key \<equiv> dayKeyByWake tz eventAt (wakeMins s)"
  shows "remaining u = remaining s" "completedBottles u = completedBottles s"
    "carryML u = carryML s" "extraML u = extraML s"
    "history u = slice_last 49 (history s)"
    "list_all (\<lambda>v. 0 \<le> v) (readHitCounts (map_of (dailyLog s) key))
       \<Longrightarrow> readHitCounts (map_of (dailyLog u) key) = readHitCounts (map_of (dailyLog s) key)"
    "list_all (\<lambda>v. 0 \<le> v) (readConsumedML (map_of (dailyLog s) key))
       \<Longrightarrow> readConsumedML (map_of (dailyLog u) key) = readConsumedML (map_of (dailyLog s) key)"
    "k \<noteq> key \<Longrightarrow> map_of (dailyLog u) k = map_of (dailyLog s) k"
proof -
  let ?e = "extraEntry tz eventAt amount s"
  let ?next = "s\<lparr>extraML := clamp (extraML s + amount) 0 100000,
                  history := slice_last 50 (history s @ [?e])\<rparr>"
  let ?x = "addExtra tz now eventAt amount s"
  have x: "?x = ?next\<lparr>dailyLog := updateDailyLogRhythm tz ?next eventAt amount\<rparr>"
    using addExtra_same_day [OF day] by (simp add: Let_def)
  have hist: "history ?x = slice_last 49 (history s) @ [?e]"
    by (simp add: x slice_last_50_snoc)
  then have ne: "history ?x \<noteq> []" and lst: "last (history ?x) = ?e"
    and bl: "butlast (history ?x) = slice_last 49 (history s)"
    by simp_all
  show "remaining u = remaining s" "completedBottles u = completedBottles s"
    "carryML u = carryML s" "extraML u = extraML s" "history u = slice_last 49 (history s)"
    unfolding u_def using undo_nonempty_fields [OF ne, of tz]
    by (simp_all add: lst bl extraEntry_fields)
  have w: "wakeMins ?x = wakeMins ?next" and log: "dailyLog ?x = updateDailyLogRhythm tz ?next eventAt amount"
    by (simp_all add: x)
  have e: "entry_t ?e = eventAt"
    "rhythmWindowIndex ?e = (if 120 \<le> amount
        then getRhythmWindowIndexForDayKey tz eventAt (dayKeyByWake tz eventAt (wakeMins ?next))
               (wakeMins ?next) (sleepMins ?next) else None)"
    "rhythmDelta ?e = (if (if 120 \<le> amount
        then getRhythmWindowIndexForDayKey tz eventAt (dayKeyByWake tz eventAt (wakeMins ?next))
               (wakeMins ?next) (sleepMins ?next) else None) = None then None else Some 1)"
    "rhythmMlDelta ?e = (if (if 120 \<le> amount
        then getRhythmWindowIndexForDayKey tz eventAt (dayKeyByWake tz eventAt (wakeMins ?next))
               (wakeMins ?next) (sleepMins ?next) else None) = None then None else Some amount)"
    by (simp_all add: extraEntry_def Let_def)
  note L = undo_after_logged [OF hist e w log]
  show "readHitCounts (map_of (dailyLog u) key) = readHitCounts (map_of (dailyLog s) key)"
    if "list_all (\<lambda>v. 0 \<le> v) (readHitCounts (map_of (dailyLog s) key))"
    using that L(1) by (simp add: u_def key_def)
  show "readConsumedML (map_of (dailyLog u) key) = readConsumedML (map_of (dailyLog s) key)"
    if "list_all (\<lambda>v. 0 \<le> v) (readConsumedML (map_of (dailyLog s) key))"
    using that L(2) by (simp add: u_def key_def)
  show "map_of (dailyLog u) k = map_of (dailyLog s) k" if "k \<noteq> key"
    using that L(3) [of k] by (simp add: u_def key_def)
qed


lemma undo_after_setRemaining:
  fixes tz now eventAt :: int and nr :: rat and s :: AppState
  assumes day: "dayKeyByWake tz now (wakeMins s) = dayKey s"
  defines "u \<equiv> undo tz (setRemaining tz now eventAt nr (Some ''track'') s)"
  defines "key \<equiv> dayKeyByWake tz eventAt (wakeMins s)"
  shows "remaining u = remaining s" "completedBottles u = completedBottles s"
    "carryML u = carryML s" "extraML u = extraML s"
    "history u = slice_last 49 (history s)"
    "list_all (\<lambda>v. 0 \<le> v) (readHitCounts (map_of (dailyLog s) key))
       \<Longrightarrow> readHitCounts (map_of (dailyLog u) key) = readHitCounts (map_of (dailyLog s) key)"
    "list_all (\<lambda>v. 0 \<le> v) (readConsumedML (map_of (dailyLog s) key))
       \<Longrightarrow> readConsumedML (map_of (dailyLog u) key) = readConsumedML (map_of (dailyLog s) key)"
    "k \<noteq> key \<Longrightarrow> map_of (dailyLog u) k = map_of (dailyLog s) k"
proof -
  let ?e = "levelEntry tz eventAt nr (Some ''track'') s"
  let ?d = "max 0 (totalConsumedFromState (levelAfter nr s) - totalConsumedFromState s)"
  let ?next = "(levelAfter nr s)\<lparr>history := slice_last 50 (history s @ [?e])\<rparr>"
  let ?x = "setRemaining tz now eventAt nr (Some ''track'') s"
  have hist: "history ?x = slice_last 49 (history s) @ [?e]"
    by (simp add: setRemaining_history freshDayIfStale_same [OF day] slice_last_50_snoc)
  then have ne: "history ?x \<noteq> []" and lst: "last (history ?x) = ?e"
    and bl: "butlast (history ?x) = slice_last 49 (history s)"
    by simp_all
  show "remaining u = remaining s" "completedBottles u = completedBottles s"
    "carryML u = carryML s" "extraML u = extraML s" "history u = slice_last 49 (history s)"
    unfolding u_def using undo_nonempty_fields [OF ne, of tz]
    by (simp_all add: lst bl levelEntry_fields)
  have w: "wakeMins ?x = wakeMins ?next"
    by (simp add: setRemaining_fields freshDayIfStale_same [OF day])
  have log: "dailyLog ?x = updateDailyLogRhythm tz ?next eventAt ?d"
    by (simp add: setRemaining_dailyLog_track freshDayIfStale_same [OF day] Let_def)
  have e: "entry_t ?e = eventAt"
    "rhythmWindowIndex ?e = (if 120 \<le> ?d
        then getRhythmWindowIndexForDayKey tz eventAt (dayKeyByWake tz eventAt (wakeMins ?next))
               (wakeMins ?next) (sleepMins ?next) else None)"
    "rhythmDelta ?e = (if (if 120 \<le> ?d
        then getRhythmWindowIndexForDayKey tz eventAt (dayKeyByWake tz eventAt (wakeMins ?next))
               (wakeMins ?next) (sleepMins ?next) else None) = None then None else Some 1)"
    "rhythmMlDelta ?e = (if (if 120 \<le> ?d
        then getRhythmWindowIndexForDayKey tz eventAt (dayKeyByWake tz eventAt (wakeMins ?next))
               (wakeMins ?next) (sleepMins ?next) else None) = None then None else Some ?d)"
    by (simp_all add: levelEntry_def Let_def levelAfter_frame le_max_iff_disj)
  note L = undo_after_logged [OF hist e w log]
  show "readHitCounts (map_of (dailyLog u) key) = readHitCounts (map_of (dailyLog s) key)"
    if "list_all (\<lambda>v. 0 \<le> v) (readHitCounts (map_of (dailyLog s) key))"
    using that L(1) by (simp add: u_def key_def levelAfter_frame)
  show "readConsumedML (map_of (dailyLog u) key) = readConsumedML (map_of (dailyLog s) key)"
    if "list_all (\<lambda>v. 0 \<le> v) (readConsumedML (map_of (dailyLog s) key))"
    using that L(2) by (simp add: u_def key_def levelAfter_frame)
  show "map_of (dailyLog u) k = map_of (dailyLog s) k" if "k \<noteq> key"
    using that L(3) [of k] by (simp add: u_def key_def levelAfter_frame)
qed

lemma setRemaining_dailyLog_untracked:
  "meta \<noteq> Some ''track''
   \<Longrightarrow> dailyLog (setRemaining tz now eventAt nr meta s) = dailyLog (freshDayIfStale tz now s)"
  unfolding setRemaining_def Let_def
  by (simp add: advanceBottle_def Let_def)

lemma undo_after_setRemaining_any:
  fixes tz now eventAt :: int and nr :: rat and s :: AppState and meta :: "string option"
  assumes day: "dayKeyByWake tz now (wakeMins s) = dayKey s"
  defines "u \<equiv> undo tz (setRemaining tz now eventAt nr meta s)"
  shows "remaining u = remaining s" "completedBottles u = completedBottles s"
    "carryML u = carryML s" "extraML u = extraML s"
    "history u = slice_last 49 (history s)"
    "k \<noteq> dayKeyByWake tz eventAt (wakeMins s) \<Longrightarrow> map_of (dailyLog u) k = map_of (dailyLog s) k"
proof -
  let ?e = "levelEntry tz eventAt nr meta s"
  let ?x = "setRemaining tz now eventAt nr meta s"
  have hist: "history ?x = slice_last 49 (history s) @ [?e]"
    by (simp add: setRemaining_history freshDayIfStale_same [OF day] slice_last_50_snoc)
  then have ne: "history ?x \<noteq> []" and lst: "last (history ?x) = ?e"
    and bl: "butlast (history ?x) = slice_last 49 (history s)"
    by simp_all
  show "remaining u = remaining s" "completedBottles u = completedBottles s"
    "carryML u = carryML s" "extraML u = extraML s" "history u = slice_last 49 (history s)"
    unfolding u_def using undo_nonempty_fields [OF ne, of tz]
    by (simp_all add: lst bl levelEntry_fields)
  show "map_of (dailyLog u) k = map_of (dailyLog s) k"
    if k: "k \<noteq> dayKeyByWake tz eventAt (wakeMins s)"
  proof (cases "meta = Some ''track''")
    case True
    then show ?thesis
      using undo_after_setRemaining(8) [OF day, where k = k and eventAt = eventAt and nr = nr] k
      by (simp add: u_def)
  next
    case False
    have dl: "dailyLog ?x = dailyLog s"
      using False by (simp add: setRemaining_dailyLog_untracked freshDayIfStale_same [OF day])
    have w: "wakeMins ?x = wakeMins s"
      by (simp add: setRemaining_fields freshDayIfStale_same [OF day] levelAfter_frame)
    have "map_of (dailyLog (undo tz ?x)) k = map_of (dailyLog ?x) k"
      using k by (intro undo_dailyLog_other) (simp add: lst levelEntry_fields w)
    then show ?thesis
      by (simp add: u_def dl)
  qed
qed

lemma wholeNumber_nonneg: "list_all wholeNumber xs \<Longrightarrow> list_all (\<lambda>v. 0 \<le> v) xs"
  by (simp add: list_all_iff wholeNumber_def)

text \<open>
  C2, as the code has it. When the stored day key is today's, \<open>undo\<close> right after one
  \<open>addExtra\<close> or one \<open>setRemaining\<close>, whatever its action, gives back \<open>remaining\<close>,
  \<open>completedBottles\<close>, \<open>carryML\<close> and \<open>extraML\<close>; the history is the old one without
  its oldest entry when it already held fifty, and the old one otherwise; in the log
  every day's entry but that of the event's day is untouched. After \<open>addExtra\<close> or a
  \<open>setRemaining\<close> of action \<open>track\<close>, the entry of the event's day has its five hit
  counts back when they were whole numbers, and its five volumes back when they and the
  volume of the event were whole numbers (for \<open>setRemaining\<close>: when \<open>goalML\<close>, \<open>bottleML\<close>
  and \<open>completedBottles\<close> are, with \<open>remaining\<close> in \<open>[0, 1]\<close>). The other fields of the event day's entry (\<open>consumedML\<close>,
  \<open>carryML\<close>, \<open>extraML\<close>, \<open>lastEventAt\<close>, and the entry's existence) are those that the
  mutation and \<open>undo\<close> wrote.
\<close>

theorem undo_restores_tracked_fields:
  assumes day: "dayKeyByWake tz now (wakeMins s) = dayKey s"
  shows "(let u = undo tz (addExtra tz now eventAt amount s);
              key = dayKeyByWake tz eventAt (wakeMins s) in
            remaining u = remaining s
            \<and> completedBottles u = completedBottles s
            \<and> carryML u = carryML s
            \<and> extraML u = extraML s
            \<and> history u = slice_last 49 (history s)
            \<and> (length (history s) < 50 \<longrightarrow> history u = history s)
            \<and> (list_all wholeNumber (readHitCounts (map_of (dailyLog s) key))
                \<longrightarrow> readHitCounts (map_of (dailyLog u) key)
                    = readHitCounts (map_of (dailyLog s) key))
            \<and> (wholeNumber amount
                \<and> list_all wholeNumber (readConsumedML (map_of (dailyLog s) key))
                \<longrightarrow> readConsumedML (map_of (dailyLog u) key)
                    = readConsumedML (map_of (dailyLog s) key))
            \<and> (\<forall>k. k \<noteq> key \<longrightarrow> map_of (dailyLog u) k = map_of (dailyLog s) k))
         \<and> (let u = undo tz (setRemaining tz now eventAt nr meta s);
                key = dayKeyByWake tz eventAt (wakeMins s) in
            remaining u = remaining s
            \<and> completedBottles u = completedBottles s
            \<and> carryML u = carryML s
            \<and> extraML u = extraML s
            \<and> history u = slice_last 49 (history s)
            \<and> (length (history s) < 50 \<longrightarrow> history u = history s)
            \<and> (meta = Some ''track''
                \<and> list_all wholeNumber (readHitCounts (map_of (dailyLog s) key))
                \<longrightarrow> readHitCounts (map_of (dailyLog u) key)
                    = readHitCounts (map_of (dailyLog s) key))
            \<and> (meta = Some ''track''
                \<and> wholeNumber (goalML s) \<and> wholeNumber (bottleML s)
                \<and> wholeNumber (completedBottles s)
                \<and> 0 \<le> remaining s \<and> remaining s \<le> 1
                \<and> list_all wholeNumber (readConsumedML (map_of (dailyLog s) key))
                \<longrightarrow> readConsumedML (map_of (dailyLog u) key)
                    = readConsumedML (map_of (dailyLog s) key))
            \<and> (\<forall>k. k \<noteq> key \<longrightarrow> map_of (dailyLog u) k = map_of (dailyLog s) k))"
proof -
  let ?key = "dayKeyByWake tz eventAt (wakeMins s)"
  let ?a = "undo tz (addExtra tz now eventAt amount s)"
  let ?b = "undo tz (setRemaining tz now eventAt nr meta s)"
  note A = undo_after_addExtra [OF day, where eventAt = eventAt and amount = amount]
  note B = undo_after_setRemaining_any [OF day, where eventAt = eventAt and nr = nr and meta = meta]
  note T = undo_after_setRemaining [OF day, where eventAt = eventAt and nr = nr]
  have a1: "remaining ?a = remaining s" "completedBottles ?a = completedBottles s"
    "carryML ?a = carryML s" "extraML ?a = extraML s"
    "history ?a = slice_last 49 (history s)"
    by (rule A)+
  have a2: "length (history s) < 50 \<longrightarrow> history ?a = history s"
    by (simp add: a1 slice_last_all)
  have a3: "list_all wholeNumber (readHitCounts (map_of (dailyLog s) ?key))
              \<longrightarrow> readHitCounts (map_of (dailyLog ?a) ?key)
                  = readHitCounts (map_of (dailyLog s) ?key)"
    using A(6) wholeNumber_nonneg by blast
  have a4: "wholeNumber amount \<and> list_all wholeNumber (readConsumedML (map_of (dailyLog s) ?key))
              \<longrightarrow> readConsumedML (map_of (dailyLog ?a) ?key)
                  = readConsumedML (map_of (dailyLog s) ?key)"
    using A(7) wholeNumber_nonneg by blast
  have a5: "\<forall>k. k \<noteq> ?key \<longrightarrow> map_of (dailyLog ?a) k = map_of (dailyLog s) k"
    using A(8) by blast
  have b1: "remaining ?b = remaining s" "completedBottles ?b = completedBottles s"
    "carryML ?b = carryML s" "extraML ?b = extraML s"
    "history ?b = slice_last 49 (history s)"
    by (rule B)+
  have b2: "length (history s) < 50 \<longrightarrow> history ?b = history s"
    by (simp add: b1 slice_last_all)
  have b3: "meta = Some ''track''
              \<and> list_all wholeNumber (readHitCounts (map_of (dailyLog s) ?key))
              \<longrightarrow> readHitCounts (map_of (dailyLog ?b) ?key)
                  = readHitCounts (map_of (dailyLog s) ?key)"
    using T(6) wholeNumber_nonneg by blast
  have b4: "meta = Some ''track''
              \<and> wholeNumber (goalML s) \<and> wholeNumber (bottleML s)
              \<and> wholeNumber (completedBottles s)
              \<and> 0 \<le> remaining s \<and> remaining s \<le> 1
              \<and> list_all wholeNumber (readConsumedML (map_of (dailyLog s) ?key))
              \<longrightarrow> readConsumedML (map_of (dailyLog ?b) ?key)
                  = readConsumedML (map_of (dailyLog s) ?key)"
    using T(7) wholeNumber_nonneg by blast
  have b5: "\<forall>k. k \<noteq> ?key \<longrightarrow> map_of (dailyLog ?b) k = map_of (dailyLog s) k"
    using B(6) by blast
  show ?thesis
    unfolding Let_def
    by (intro conjI a1 a2 a3 a4 a5 b1 b2 b3 b4 b5)
qed

section \<open>Adding extra volume\<close>





lemma updateDailyLogRhythm_nonempty: "updateDailyLogRhythm tz s atMs deltaMl \<noteq> []"
  by (cases "dailyLog s") (simp_all add: updateDailyLogRhythm_def Let_def)



section \<open>Undo after one mutation: examples\<close>

theorem undo_restores_tracked_fields_witness:
  "dayKeyByWake 0 noon (wakeMins (makeDefaultState 0 noon)) = dayKey (makeDefaultState 0 noon)
   \<and> length (history (makeDefaultState 0 noon)) < 50
   \<and> list_all wholeNumber
         (readHitCounts (map_of (dailyLog (makeDefaultState 0 noon)) ''2024-01-15''))
   \<and> list_all wholeNumber
         (readConsumedML (map_of (dailyLog (makeDefaultState 0 noon)) ''2024-01-15''))
   \<and> wholeNumber 250
   \<and> wholeNumber (goalML (makeDefaultState 0 noon))
   \<and> wholeNumber (bottleML (makeDefaultState 0 noon))
   \<and> wholeNumber (completedBottles (makeDefaultState 0 noon))
   \<and> 0 \<le> remaining (makeDefaultState 0 noon) \<and> remaining (makeDefaultState 0 noon) \<le> 1
   \<and> remaining (undo 0 (addExtra 0 noon noon 250 (makeDefaultState 0 noon))) = 1
   \<and> completedBottles (undo 0 (addExtra 0 noon noon 250 (makeDefaultState 0 noon))) = 0
   \<and> carryML (undo 0 (addExtra 0 noon noon 250 (makeDefaultState 0 noon))) = 0
   \<and> extraML (undo 0 (addExtra 0 noon noon 250 (makeDefaultState 0 noon))) = 0
   \<and> history (undo 0 (addExtra 0 noon noon 250 (makeDefaultState 0 noon))) = []
   \<and> readHitCounts (map_of (dailyLog (undo 0 (addExtra 0 noon noon 250 (makeDefaultState 0 noon))))
         ''2024-01-15'') = [0, 0, 0, 0, 0]
   \<and> readConsumedML (map_of (dailyLog (undo 0 (addExtra 0 noon noon 250 (makeDefaultState 0 noon))))
         ''2024-01-15'') = [0, 0, 0, 0, 0]
   \<and> map_of (dailyLog (undo 0 (addExtra 0 noon noon 250 (makeDefaultState 0 noon)))) ''2024-01-14''
       = None
   \<and> remaining (undo 0 (setRemaining 0 noon noon (1 / 2) (Some ''track'') (makeDefaultState 0 noon))) = 1
   \<and> history (undo 0 (setRemaining 0 noon noon (1 / 2) (Some ''track'') (makeDefaultState 0 noon))) = []
   \<and> readHitCounts (map_of (dailyLog (undo 0 (setRemaining 0 noon noon (1 / 2) (Some ''track'')
         (makeDefaultState 0 noon)))) ''2024-01-15'') = [0, 0, 0, 0, 0]
   \<and> readConsumedML (map_of (dailyLog (undo 0 (setRemaining 0 noon noon (1 / 2) (Some ''track'')
         (makeDefaultState 0 noon)))) ''2024-01-15'') = [0, 0, 0, 0, 0]
   \<and> remaining (undo 0 (setRemaining 0 noon noon (1 / 2) None (makeDefaultState 0 noon))) = 1
   \<and> history (undo 0 (setRemaining 0 noon noon (1 / 2) None (makeDefaultState 0 noon))) = []
   \<and> map_of (dailyLog (undo 0 (setRemaining 0 noon noon (1 / 2) None (makeDefaultState 0 noon))))
         ''2024-01-14'' = None"
proof -
  let ?s = "makeDefaultState 0 noon"
  have day: "dayKeyByWake 0 noon (wakeMins ?s) = dayKey ?s"
    by (simp add: makeDefaultState_def)
  have cfg: "remaining ?s = 1" "completedBottles ?s = 0" "carryML ?s = 0" "extraML ?s = 0"
    "wakeMins ?s = 480" "history ?s = []" "dailyLog ?s = []" "goalML ?s = 2000"
    "bottleML ?s = 500"
    by (simp_all add: makeDefaultState_def)
  have pre: "length (history ?s) < 50"
    "list_all wholeNumber (readHitCounts (map_of (dailyLog ?s) ''2024-01-15''))"
    "list_all wholeNumber (readConsumedML (map_of (dailyLog ?s) ''2024-01-15''))"
    "wholeNumber 250" "wholeNumber (goalML ?s)" "wholeNumber (bottleML ?s)"
    "wholeNumber (completedBottles ?s)" "0 \<le> remaining ?s" "remaining ?s \<le> 1"
    by (simp_all add: cfg readHitCounts_def readConsumedML_def zeros5_def wholeNumber_def)
  have old: "readHitCounts (map_of (dailyLog ?s) ''2024-01-15'') = [0, 0, 0, 0, 0]"
    "readConsumedML (map_of (dailyLog ?s) ''2024-01-15'') = [0, 0, 0, 0, 0]"
    by (simp_all add: cfg readHitCounts_def readConsumedML_def zeros5_def)
  have key: "dayKeyByWake 0 noon (wakeMins ?s) = ''2024-01-15''"
    by (simp only: cfg dayKeyByWake_noon)
  note A = undo_restores_tracked_fields
             [OF day, where eventAt = noon and amount = 250 and nr = "1 / 2"
                and meta = "Some ''track''", unfolded Let_def key]
  note B = undo_restores_tracked_fields
             [OF day, where eventAt = noon and amount = 250 and nr = "1 / 2"
                and meta = None, unfolded Let_def key]
  have a: "remaining (undo 0 (addExtra 0 noon noon 250 ?s)) = 1"
    "completedBottles (undo 0 (addExtra 0 noon noon 250 ?s)) = 0"
    "carryML (undo 0 (addExtra 0 noon noon 250 ?s)) = 0"
    "extraML (undo 0 (addExtra 0 noon noon 250 ?s)) = 0"
    "history (undo 0 (addExtra 0 noon noon 250 ?s)) = []"
    using A by (simp_all add: cfg slice_last_def)
  have a6: "readHitCounts (map_of (dailyLog (undo 0 (addExtra 0 noon noon 250 ?s))) ''2024-01-15'')
       = [0, 0, 0, 0, 0]"
    using A pre(2) by (simp add: old)
  have a7: "readConsumedML (map_of (dailyLog (undo 0 (addExtra 0 noon noon 250 ?s))) ''2024-01-15'')
       = [0, 0, 0, 0, 0]"
    using A pre(3) pre(4) by (simp add: old)
  have "\<forall>k. k \<noteq> ''2024-01-15''
          \<longrightarrow> map_of (dailyLog (undo 0 (addExtra 0 noon noon 250 ?s))) k = map_of (dailyLog ?s) k"
    using A by simp
  then have a': "map_of (dailyLog (undo 0 (addExtra 0 noon noon 250 ?s))) ''2024-01-14'' = None"
    by (simp add: cfg)
  have b: "remaining (undo 0 (setRemaining 0 noon noon (1 / 2) (Some ''track'') ?s)) = 1"
    "history (undo 0 (setRemaining 0 noon noon (1 / 2) (Some ''track'') ?s)) = []"
    using A by (simp_all add: cfg slice_last_def)
  have b6: "readHitCounts (map_of (dailyLog (undo 0 (setRemaining 0 noon noon (1 / 2) (Some ''track'') ?s)))
       ''2024-01-15'') = [0, 0, 0, 0, 0]"
    using A pre(2) by (simp add: old)
  have b7: "readConsumedML (map_of (dailyLog (undo 0 (setRemaining 0 noon noon (1 / 2) (Some ''track'') ?s)))
       ''2024-01-15'') = [0, 0, 0, 0, 0]"
    using A pre(3) pre(5) pre(6) pre(7) pre(8) pre(9) by (simp add: old)
  have c: "remaining (undo 0 (setRemaining 0 noon noon (1 / 2) None ?s)) = 1"
    "history (undo 0 (setRemaining 0 noon noon (1 / 2) None ?s)) = []"
    using B by (simp_all add: cfg slice_last_def)
  have "\<forall>k. k \<noteq> ''2024-01-15''
          \<longrightarrow> map_of (dailyLog (undo 0 (setRemaining 0 noon noon (1 / 2) None ?s))) k
              = map_of (dailyLog ?s) k"
    using B by simp
  then have c': "map_of (dailyLog (undo 0 (setRemaining 0 noon noon (1 / 2) None ?s))) ''2024-01-14''
                   = None"
    by (simp add: cfg)
  show ?thesis
    by (intro conjI day pre a a6 a7 a' b b6 b7 c c')
qed

text \<open>
  On a fresh default state, \<open>addExtra\<close> of 50 ml followed by \<open>undo\<close> leaves the log
  entry that \<open>addExtra\<close> wrote: the log is not the empty one it was.
\<close>

theorem undo_restores_tracked_fields_counterexample:
  "dailyLog (makeDefaultState 0 noon) = []
   \<and> dailyLog (undo 0 (addExtra 0 noon noon 50 (makeDefaultState 0 noon))) \<noteq> []
   \<and> dailyLog (undo 0 (addExtra 0 noon noon 50 (makeDefaultState 0 noon)))
        \<noteq> dailyLog (makeDefaultState 0 noon)"
proof -
  let ?s = "makeDefaultState 0 noon"
  let ?x = "addExtra 0 noon noon 50 ?s"
  have day: "dayKeyByWake 0 noon (wakeMins ?s) = dayKey ?s"
    by (simp add: makeDefaultState_def)
  have x: "?x = (let next = ?s\<lparr>extraML := clamp (extraML ?s + 50) 0 100000,
                         history := slice_last 50 (history ?s @ [extraEntry 0 noon 50 ?s])\<rparr>
                 in next\<lparr>dailyLog := updateDailyLogRhythm 0 next noon 50\<rparr>)"
    by (rule addExtra_same_day [OF day])
  have lst: "last (history ?x) = extraEntry 0 noon 50 ?s"
    by (simp add: x Let_def slice_last_50_snoc)
  have "rhythmWindowIndex (last (history ?x)) = None"
    unfolding lst by (simp add: extraEntry_def)
  then have "dailyLog (undo 0 ?x) = dailyLog ?x"
    by (rule undo_dailyLog_no_rhythm)
  moreover have "dailyLog ?x \<noteq> []"
    by (simp add: x Let_def updateDailyLogRhythm_nonempty)
  moreover have "dailyLog ?s = []"
    by (simp add: makeDefaultState_def)
  ultimately show ?thesis
    by simp
qed

section \<open>Four emptied bottles\<close>

lemma track_full_step:
  assumes day: "dayKeyByWake tz now (wakeMins s) = dayKey s"
    and cfg: "goalML s = 2000" "bottleML s = 500" "remaining s = 1" "carryML s = 0" "extraML s = 0"
    and k: "completedBottles s = 4"
  shows "completedBottles (setRemaining tz now eventAt 0 (Some ''track'') s) = 4"
    and "totalConsumedFromState (setRemaining tz now eventAt 0 (Some ''track'') s) = 2000"
proof -
  let ?y = "setRemaining tz now eventAt 0 (Some ''track'') s"
  have la: "levelAfter 0 s = s\<lparr>remaining := 1, completedBottles := 4\<rparr>"
    using k by (simp add: levelAfter_empty [OF cfg(1,2)])
  note f = setRemaining_fields [of tz now eventAt 0 "Some ''track''" s,
      unfolded freshDayIfStale_same [OF day] la]
  show cb: "completedBottles ?y = 4"
    using f by simp
  have "totalConsumedFromState ?y = 500 * completedBottles ?y"
    using f cfg cb by (intro totalConsumed_full_bottles) simp_all
  then show "totalConsumedFromState ?y = 2000"
    using cb by simp
qed

text \<open>
  C7. From a fresh day with a goal of 2000 ml and a bottle of 500 ml, four calls of
  \<open>setRemaining(0, {action: "track"})\<close> on the same day take \<open>completedBottles\<close> through
  1, 2, 3 to 4, each leaving \<open>remaining\<close> at \<open>1\<close>; the total is 2000 after the fourth;
  the first three calls set a celebration of type bottle and the fourth one of type
  goal; a fifth call leaves \<open>completedBottles\<close> at the cap of 4.
\<close>

theorem four_tracks_reach_goal:
  assumes fresh: "goalML s = 2000" "bottleML s = 500" "completedBottles s = 0" "remaining s = 1"
      "carryML s = 0" "extraML s = 0"
    and days: "dayKeyByWake tz n1 (wakeMins s) = dayKey s" "dayKeyByWake tz n2 (wakeMins s) = dayKey s"
      "dayKeyByWake tz n3 (wakeMins s) = dayKey s" "dayKeyByWake tz n4 (wakeMins s) = dayKey s"
      "dayKeyByWake tz n5 (wakeMins s) = dayKey s"
  shows "let s1 = setRemaining tz n1 e1 0 (Some ''track'') s;
             s2 = setRemaining tz n2 e2 0 (Some ''track'') s1;
             s3 = setRemaining tz n3 e3 0 (Some ''track'') s2;
             s4 = setRemaining tz n4 e4 0 (Some ''track'') s3;
             s5 = setRemaining tz n5 e5 0 (Some ''track'') s4
         in completedBottles s1 = 1 \<and> completedBottles s2 = 2 \<and> completedBottles s3 = 3
            \<and> completedBottles s4 = 4 \<and> completedBottles s5 = 4
            \<and> remaining s1 = 1 \<and> remaining s2 = 1 \<and> remaining s3 = 1 \<and> remaining s4 = 1
            \<and> totalConsumedFromState s1 = 500 \<and> totalConsumedFromState s2 = 1000
            \<and> totalConsumedFromState s3 = 1500 \<and> totalConsumedFromState s4 = 2000
            \<and> celebrate s1 = Some \<lparr>cel_type = Bottle, cel_pct = 25, cel_consumedML = 500\<rparr>
            \<and> celebrate s2 = Some \<lparr>cel_type = Bottle, cel_pct = 50, cel_consumedML = 1000\<rparr>
            \<and> celebrate s3 = Some \<lparr>cel_type = Bottle, cel_pct = 75, cel_consumedML = 1500\<rparr>
            \<and> celebrate s4 = Some \<lparr>cel_type = Goal, cel_pct = 100, cel_consumedML = 2000\<rparr>"
proof -
  define s1 where "s1 = setRemaining tz n1 e1 0 (Some ''track'') s"
  define s2 where "s2 = setRemaining tz n2 e2 0 (Some ''track'') s1"
  define s3 where "s3 = setRemaining tz n3 e3 0 (Some ''track'') s2"
  define s4 where "s4 = setRemaining tz n4 e4 0 (Some ''track'') s3"
  define s5 where "s5 = setRemaining tz n5 e5 0 (Some ''track'') s4"
  have k0: "completedBottles s = of_nat 0"
    using fresh by simp
  note t1 = track_empty_step [OF days(1) fresh(1,2,4,5,6) k0, of e1, folded s1_def]
  have d2: "dayKeyByWake tz n2 (wakeMins s1) = dayKey s1"
    using t1 days(2) by simp
  have k1: "completedBottles s1 = of_nat 1"
    using t1 by simp
  note t2 = track_empty_step [OF d2 t1(1,2,3,4,5) k1, of e2, folded s2_def]
  have d3: "dayKeyByWake tz n3 (wakeMins s2) = dayKey s2"
    using t1 t2 days(3) by simp
  have k2: "completedBottles s2 = of_nat 2"
    using t2 by simp
  note t3 = track_empty_step [OF d3 t2(1,2,3,4,5) k2, of e3, folded s3_def]
  have d4: "dayKeyByWake tz n4 (wakeMins s3) = dayKey s3"
    using t1 t2 t3 days(4) by simp
  have k3: "completedBottles s3 = of_nat 3"
    using t3 by simp
  note t4 = track_empty_step [OF d4 t3(1,2,3,4,5) k3, of e4, folded s4_def]
  have d5: "dayKeyByWake tz n5 (wakeMins s4) = dayKey s4"
    using t1 t2 t3 t4 days(5) by simp
  have k4: "completedBottles s4 = 4"
    using t4 by simp
  note t5 = track_full_step [OF d5 t4(1,2,3,4,5) k4, of e5, folded s5_def]
  have "completedBottles s1 = 1 \<and> completedBottles s2 = 2 \<and> completedBottles s3 = 3
            \<and> completedBottles s4 = 4 \<and> completedBottles s5 = 4
            \<and> remaining s1 = 1 \<and> remaining s2 = 1 \<and> remaining s3 = 1 \<and> remaining s4 = 1
            \<and> totalConsumedFromState s1 = 500 \<and> totalConsumedFromState s2 = 1000
            \<and> totalConsumedFromState s3 = 1500 \<and> totalConsumedFromState s4 = 2000
            \<and> celebrate s1 = Some \<lparr>cel_type = Bottle, cel_pct = 25, cel_consumedML = 500\<rparr>
            \<and> celebrate s2 = Some \<lparr>cel_type = Bottle, cel_pct = 50, cel_consumedML = 1000\<rparr>
            \<and> celebrate s3 = Some \<lparr>cel_type = Bottle, cel_pct = 75, cel_consumedML = 1500\<rparr>
            \<and> celebrate s4 = Some \<lparr>cel_type = Goal, cel_pct = 100, cel_consumedML = 2000\<rparr>"
    using t1(3,8,9,10) t2(3,8,9,10) t3(3,8,9,10) t4(3,8,9,10) t5(1) by simp
  then show ?thesis
    unfolding Let_def s1_def s2_def s3_def s4_def s5_def .
qed


lemma dayKeyByWake_afternoon:
  "dayKeyByWake 0 (noon + 3600000) 480 = ''2024-01-15''"
  "dayKeyByWake 0 (noon + 7200000) 480 = ''2024-01-15''"
  "dayKeyByWake 0 (noon + 10800000) 480 = ''2024-01-15''"
  "dayKeyByWake 0 (noon + 14400000) 480 = ''2024-01-15''"
  by code_simp+

theorem four_tracks_reach_goal_witness:
  "goalML (makeDefaultState 0 noon) = 2000 \<and> bottleML (makeDefaultState 0 noon) = 500
   \<and> completedBottles (makeDefaultState 0 noon) = 0 \<and> remaining (makeDefaultState 0 noon) = 1
   \<and> carryML (makeDefaultState 0 noon) = 0 \<and> extraML (makeDefaultState 0 noon) = 0
   \<and> dayKeyByWake 0 (noon + 10800000) (wakeMins (makeDefaultState 0 noon))
       = dayKey (makeDefaultState 0 noon)
   \<and> completedBottles
        (setRemaining 0 (noon + 10800000) (noon + 10800000) 0 (Some ''track'')
          (setRemaining 0 (noon + 7200000) (noon + 7200000) 0 (Some ''track'')
            (setRemaining 0 (noon + 3600000) (noon + 3600000) 0 (Some ''track'')
              (setRemaining 0 noon noon 0 (Some ''track'') (makeDefaultState 0 noon))))) = 4
   \<and> totalConsumedFromState
        (setRemaining 0 (noon + 10800000) (noon + 10800000) 0 (Some ''track'')
          (setRemaining 0 (noon + 7200000) (noon + 7200000) 0 (Some ''track'')
            (setRemaining 0 (noon + 3600000) (noon + 3600000) 0 (Some ''track'')
              (setRemaining 0 noon noon 0 (Some ''track'') (makeDefaultState 0 noon))))) = 2000
   \<and> celebrate
        (setRemaining 0 (noon + 10800000) (noon + 10800000) 0 (Some ''track'')
          (setRemaining 0 (noon + 7200000) (noon + 7200000) 0 (Some ''track'')
            (setRemaining 0 (noon + 3600000) (noon + 3600000) 0 (Some ''track'')
              (setRemaining 0 noon noon 0 (Some ''track'') (makeDefaultState 0 noon)))))
       = Some \<lparr>cel_type = Goal, cel_pct = 100, cel_consumedML = 2000\<rparr>
   \<and> celebrate (setRemaining 0 noon noon 0 (Some ''track'') (makeDefaultState 0 noon))
       = Some \<lparr>cel_type = Bottle, cel_pct = 25, cel_consumedML = 500\<rparr>"
proof -
  let ?s = "makeDefaultState 0 noon"
  have fresh: "goalML ?s = 2000" "bottleML ?s = 500" "completedBottles ?s = 0" "remaining ?s = 1"
    "carryML ?s = 0" "extraML ?s = 0"
    by (simp_all add: makeDefaultState_def)
  have days: "dayKeyByWake 0 noon (wakeMins ?s) = dayKey ?s"
    "dayKeyByWake 0 (noon + 3600000) (wakeMins ?s) = dayKey ?s"
    "dayKeyByWake 0 (noon + 7200000) (wakeMins ?s) = dayKey ?s"
    "dayKeyByWake 0 (noon + 10800000) (wakeMins ?s) = dayKey ?s"
    "dayKeyByWake 0 (noon + 14400000) (wakeMins ?s) = dayKey ?s"
    by (simp_all add: makeDefaultState_def dayKeyByWake_noon dayKeyByWake_afternoon)
  note T = four_tracks_reach_goal [OF fresh days,
      of noon "noon + 3600000" "noon + 7200000" "noon + 10800000" "noon + 14400000",
      unfolded Let_def]
  show ?thesis
    using T by (intro conjI fresh days(4)) simp_all
qed

section \<open>The day rollover: snapshot, pruning and reset\<close>











lemma rollover_stale:
  assumes "dayKey s \<noteq> today"
  shows "rollover n today atNow s =
           s\<lparr>dailyLog := pruneLog n (AList.update (dayKey s) (snapshotOf s atNow) (dailyLog s)),
             dayKey := today, completedBottles := 0, remaining := 1, carryML := 0, extraML := 0,
             history := [], celebrate := None\<rparr>"
  using assms by (simp add: rollover_def Let_def)



lemma resetToTodayIfNeeded_fields:
  assumes "dayKey s \<noteq> dayKeyByWake tz now (wakeMins s)"
  shows "dayKey (resetToTodayIfNeeded tz now atNow s) = dayKeyByWake tz now (wakeMins s)"
    "completedBottles (resetToTodayIfNeeded tz now atNow s) = 0"
    "remaining (resetToTodayIfNeeded tz now atNow s) = 1"
    "carryML (resetToTodayIfNeeded tz now atNow s) = 0"
    "extraML (resetToTodayIfNeeded tz now atNow s) = 0"
    "history (resetToTodayIfNeeded tz now atNow s) = []"
    "celebrate (resetToTodayIfNeeded tz now atNow s) = None"
    "goalML (resetToTodayIfNeeded tz now atNow s) = goalML s"
    "bottleML (resetToTodayIfNeeded tz now atNow s) = bottleML s"
    "wakeMins (resetToTodayIfNeeded tz now atNow s) = wakeMins s"
    "sleepMins (resetToTodayIfNeeded tz now atNow s) = sleepMins s"
  using assms by (simp_all add: resetToTodayIfNeeded_def rollover_stale)










section \<open>The fill estimate request: rate limits\<close>

lemma backoffMs_values: "backoffMs 1 = 1200" "backoffMs 2 = 2400" "backoffMs 5 = 19200" "backoffMs 6 = 20000"
  by (simp_all add: backoffMs_def)

lemma backoffMs_cap: "backoffMs n \<le> 20000"
  by (simp add: backoffMs_def)

lemma jitterMs_range:
  assumes "0 \<le> Math_random p n" "Math_random p n < 1"
  shows "0 \<le> jitterMs p n" "jitterMs p n \<le> 449"
proof -
  show "0 \<le> jitterMs p n"
    using assms(1) by (simp add: jitterMs_def)
  have "Math_random p n * 450 < 450"
    using assms(2) by simp
  then have "\<lfloor>Math_random p n * 450\<rfloor> < 450"
    by (simp add: floor_less_iff)
  then show "jitterMs p n \<le> 449"
    by (simp add: jitterMs_def)
qed

lemma trim_keeps_prefix:
  assumes "P \<noteq> []" "\<not> is_space (hd P)" "\<not> is_space (last P)"
  shows "take (length P) (String_trim (P @ x)) = P"
proof -
  have front: "dropWhile is_space (P @ x) = P @ x"
    using assms(1,2) by (cases P) simp_all
  have bk: "dropWhile is_space (rev P) = rev P"
    using assms(1,3) by (cases "rev P") (simp_all add: last_rev [symmetric] hd_rev)
  have "\<exists>y. dropWhile is_space (rev x @ rev P) = y @ rev P"
  proof (cases "\<forall>c \<in> set (rev x). is_space c")
    case True
    then have "dropWhile is_space (rev x @ rev P) = dropWhile is_space (rev P)"
      by (simp add: dropWhile_append)
    then show ?thesis
      by (simp add: bk)
  next
    case False
    then have "dropWhile is_space (rev x @ rev P) = dropWhile is_space (rev x) @ rev P"
      by (auto simp: dropWhile_append)
    then show ?thesis
      by blast
  qed
  then obtain y where "dropWhile is_space (rev x @ rev P) = y @ rev P" ..
  then have "String_trim (P @ x) = P @ rev y"
    by (simp add: String_trim_def front)
  then show ?thesis
    by simp
qed

lemma String_nat_nonempty: "String_nat n \<noteq> []"
  by (subst String_nat.simps) simp

lemma errorMessage_prefix:
  "take (length (''Scan failed ('' @ String_int (status res) @ '')'')) (errorMessage res)
     = ''Scan failed ('' @ String_int (status res) @ '')''"
proof -
  let ?P = "''Scan failed ('' @ String_int (status res) @ '')''"
  have "take (length ?P) (String_trim (?P @ x)) = ?P" for x
    by (rule trim_keeps_prefix) (simp_all add: is_space_def)
  from this [of "'' '' @ y" for y] show ?thesis
    unfolding errorMessage_def Let_def by simp
qed


lemma estimateFrom_first:
  "estimateFrom p 1 slept l =
     (case fetch p 1 of
        None \<Rightarrow> (1, slept, Inl FetchRejected)
      | Some res \<Rightarrow>
          if status res = 429 then
            (if sleep_aborted p 1 then (1, slept @ [waitMs p 1 res], Inl AbortError)
             else estimateFrom p 2 (slept @ [waitMs p 1 res]) (Some (waitMs p 1 res)))
          else if \<not> ok res then (1, slept, Inl (Error (errorMessage res)))
          else
            (case percent_full res of
               Some percentFull \<Rightarrow> (1, slept, Inr (clamp percentFull 0 100))
             | None \<Rightarrow>
                 (case fill_fraction res of
                    Some fillFrac \<Rightarrow> (1, slept, Inr (clamp (fillFrac * 100) 0 100))
                  | None \<Rightarrow> (1, slept, Inl (Error ''Scan returned an unexpected response shape'')))))"
  by (subst estimateFrom.simps) (simp add: MAX_ATTEMPTS_def numeral_2_eq_2 split: option.split)

lemma estimateFrom_last:
  "estimateFrom p 2 slept l =
     (case fetch p 2 of
        None \<Rightarrow> (2, slept, Inl FetchRejected)
      | Some res \<Rightarrow>
          if status res = 429 then
            (2, slept, Inl (RateLimitError (rateLimitMessage (waitMs p 2 res)) (Some (waitMs p 2 res))))
          else if \<not> ok res then (2, slept, Inl (Error (errorMessage res)))
          else
            (case percent_full res of
               Some percentFull \<Rightarrow> (2, slept, Inr (clamp percentFull 0 100))
             | None \<Rightarrow>
                 (case fill_fraction res of
                    Some fillFrac \<Rightarrow> (2, slept, Inr (clamp (fillFrac * 100) 0 100))
                  | None \<Rightarrow> (2, slept, Inl (Error ''Scan returned an unexpected response shape'')))))"
  by (subst estimateFrom.simps) (simp add: MAX_ATTEMPTS_def split: option.split)

lemma estimateFrom_last_trace:
  "fst (estimateFrom p 2 slept l) = 2" "fst (snd (estimateFrom p 2 slept l)) = slept"
  by (simp_all add: estimateFrom_last split: option.splits)

lemma retried_once:
  assumes "fetch p 1 = Some r1" "status r1 = 429" "\<not> sleep_aborted p 1"
  shows "estimatePercentFull p = estimateFrom p 2 [waitMs p 1 r1] (Some (waitMs p 1 r1))"
  using assms unfolding estimatePercentFull_def estimateFrom_first by simp

text \<open>
  C10. With a random generator that answers in \<open>[0, 1)\<close>: when the first response has
  status 429 and the sleep is not aborted, \<open>fetch\<close> is called exactly twice, with one
  sleep between the calls, of the wait computed from the first response; when the
  second response has status 429 too, the call fails with a \<open>RateLimitError\<close> that holds
  the wait computed from the second response; a response of another status outside
  200 to 299 fails with an \<open>Error\<close> whose message begins with \<open>Scan failed (status)\<close>,
  without another call. The wait is the \<open>Retry-After\<close> time when that is positive (the
  seconds times 1000, rounded, or the time from now to the date, not below 0), and
  otherwise \<open>min(20000, 1200 * 2^(attempt - 1))\<close> plus a jitter \<open>floor(random * 450)\<close>,
  which lies from 0 to 449 and so within 450 ms.
\<close>

theorem rate_limited_retry:
  assumes rnd: "\<forall>n. 0 \<le> Math_random p n \<and> Math_random p n < 1"
  shows "(fetch p 1 = Some r1 \<and> status r1 = 429 \<and> \<not> sleep_aborted p 1
            \<longrightarrow> fst (estimatePercentFull p) = 2
                \<and> fst (snd (estimatePercentFull p)) = [waitMs p 1 r1]
                \<and> (fetch p 2 = Some r2 \<and> status r2 = 429
                      \<longrightarrow> snd (snd (estimatePercentFull p))
                            = Inl (RateLimitError (rateLimitMessage (waitMs p 2 r2))
                                     (Some (waitMs p 2 r2))))
                \<and> (fetch p 2 = Some r2 \<and> status r2 \<noteq> 429 \<and> \<not> ok r2
                      \<longrightarrow> snd (snd (estimatePercentFull p)) = Inl (Error (errorMessage r2))))
         \<and> (fetch p 1 = Some r1 \<and> status r1 \<noteq> 429 \<and> \<not> ok r1
              \<longrightarrow> estimatePercentFull p = (1, [], Inl (Error (errorMessage r1))))
         \<and> take (length (''Scan failed ('' @ String_int (status r1) @ '')'')) (errorMessage r1)
             = ''Scan failed ('' @ String_int (status r1) @ '')''
         \<and> waitMs p n r1 =
             (case parseRetryAfterToMs (Number p) (Date_parse p) (Date_now p n) (retry_after r1) of
                Some ms \<Rightarrow>
                  if 0 < ms then ms
                  else min 20000 (1200 * 2 ^ (n - 1)) + \<lfloor>Math_random p n * 450\<rfloor>
              | None \<Rightarrow> min 20000 (1200 * 2 ^ (n - 1)) + \<lfloor>Math_random p n * 450\<rfloor>)
         \<and> 0 \<le> \<lfloor>Math_random p n * 450\<rfloor> \<and> \<lfloor>Math_random p n * 450\<rfloor> \<le> 449
         \<and> backoffMs 1 = 1200 \<and> backoffMs 2 = 2400 \<and> backoffMs n \<le> 20000
         \<and> (h \<noteq> [] \<and> Number p h = Some sec \<and> 0 \<le> sec
              \<longrightarrow> parseRetryAfterToMs (Number p) (Date_parse p) now (Some h)
                    = Some (Math_round (sec * 1000)))
         \<and> (h \<noteq> [] \<and> (Number p h = None \<or> (\<exists>neg. Number p h = Some neg \<and> neg < 0))
              \<and> Date_parse p h = Some d
              \<longrightarrow> parseRetryAfterToMs (Number p) (Date_parse p) now (Some h)
                    = Some (max 0 (d - now)))"
proof -
  have retry: "fst (estimatePercentFull p) = 2
                \<and> fst (snd (estimatePercentFull p)) = [waitMs p 1 r1]
                \<and> (fetch p 2 = Some r2 \<and> status r2 = 429
                      \<longrightarrow> snd (snd (estimatePercentFull p))
                            = Inl (RateLimitError (rateLimitMessage (waitMs p 2 r2))
                                     (Some (waitMs p 2 r2))))
                \<and> (fetch p 2 = Some r2 \<and> status r2 \<noteq> 429 \<and> \<not> ok r2
                      \<longrightarrow> snd (snd (estimatePercentFull p)) = Inl (Error (errorMessage r2)))"
    if a: "fetch p 1 = Some r1 \<and> status r1 = 429 \<and> \<not> sleep_aborted p 1"
  proof -
    have e: "estimatePercentFull p = estimateFrom p 2 [waitMs p 1 r1] (Some (waitMs p 1 r1))"
      using a by (intro retried_once) simp_all
    show ?thesis
      unfolding e by (simp add: estimateFrom_last_trace) (simp add: estimateFrom_last)
  qed
  have other: "estimatePercentFull p = (1, [], Inl (Error (errorMessage r1)))"
    if "fetch p 1 = Some r1 \<and> status r1 \<noteq> 429 \<and> \<not> ok r1"
    using that unfolding estimatePercentFull_def estimateFrom_first by simp
  have w: "waitMs p n r1 =
             (case parseRetryAfterToMs (Number p) (Date_parse p) (Date_now p n) (retry_after r1) of
                Some ms \<Rightarrow>
                  if 0 < ms then ms
                  else min 20000 (1200 * 2 ^ (n - 1)) + \<lfloor>Math_random p n * 450\<rfloor>
              | None \<Rightarrow> min 20000 (1200 * 2 ^ (n - 1)) + \<lfloor>Math_random p n * 450\<rfloor>)"
    unfolding waitMs_def backoffMs_def jitterMs_def by (rule refl)
  have j: "0 \<le> \<lfloor>Math_random p n * 450\<rfloor>" "\<lfloor>Math_random p n * 450\<rfloor> \<le> 449"
    using jitterMs_range [of p n] rnd by (simp_all add: jitterMs_def)
  have p1: "parseRetryAfterToMs (Number p) (Date_parse p) now (Some h) = Some (Math_round (sec * 1000))"
    if "h \<noteq> [] \<and> Number p h = Some sec \<and> 0 \<le> sec"
    using that by (simp add: parseRetryAfterToMs_def)
  have p2: "parseRetryAfterToMs (Number p) (Date_parse p) now (Some h) = Some (max 0 (d - now))"
    if "h \<noteq> [] \<and> (Number p h = None \<or> (\<exists>neg. Number p h = Some neg \<and> neg < 0))
        \<and> Date_parse p h = Some d"
    using that by (auto simp: parseRetryAfterToMs_def)
  show ?thesis
    using retry other w j p1 p2
    by (intro conjI impI errorMessage_prefix backoffMs_values(1) backoffMs_values(2) backoffMs_cap)
       blast+
qed

lemma busy_waits: "waitMs busyPlatform 1 (limited (Some ''2'')) = 2000"
  "waitMs busyPlatform 2 (limited None) = 2625"
  by code_simp+

lemma busy_message:
  "rateLimitMessage 2625 = ''Scan failed (429) - Gemini API rate limit. Please try again in 3s.''"
  by code_simp

lemma serverError_message: "errorMessage serverError = ''Scan failed (500) - overloaded''"
  by code_simp

theorem rate_limited_retry_witness:
  "(\<forall>n. 0 \<le> Math_random busyPlatform n \<and> Math_random busyPlatform n < 1)
   \<and> fetch busyPlatform 1 = Some (limited (Some ''2''))
   \<and> status (limited (Some ''2'')) = 429
   \<and> \<not> sleep_aborted busyPlatform 1
   \<and> fetch busyPlatform 2 = Some (limited None)
   \<and> status (limited None) = 429
   \<and> estimatePercentFull busyPlatform
       = (2, [2000],
          Inl (RateLimitError
                 ''Scan failed (429) - Gemini API rate limit. Please try again in 3s.''
                 (Some 2625)))
   \<and> (\<forall>n. 0 \<le> Math_random serverErrorPlatform n \<and> Math_random serverErrorPlatform n < 1)
   \<and> fetch serverErrorPlatform 1 = Some serverError
   \<and> status serverError \<noteq> 429 \<and> \<not> ok serverError
   \<and> estimatePercentFull serverErrorPlatform = (1, [], Inl (Error ''Scan failed (500) - overloaded''))"
proof -
  have rnd: "\<forall>n. 0 \<le> Math_random busyPlatform n \<and> Math_random busyPlatform n < 1"
    by (simp add: busyPlatform_def)
  have rnd': "\<forall>n. 0 \<le> Math_random serverErrorPlatform n \<and> Math_random serverErrorPlatform n < 1"
    by (simp add: serverErrorPlatform_def busyPlatform_def)
  have f: "fetch busyPlatform 1 = Some (limited (Some ''2''))" "status (limited (Some ''2'')) = 429"
    "\<not> sleep_aborted busyPlatform 1" "fetch busyPlatform 2 = Some (limited None)"
    "status (limited None) = 429"
    by (simp_all add: busyPlatform_def limited_def)
  have g: "fetch serverErrorPlatform 1 = Some serverError" "status serverError \<noteq> 429"
    "\<not> ok serverError"
    by (simp_all add: serverErrorPlatform_def serverError_def ok_def)
  note A = rate_limited_retry [OF rnd, where ?r1.0 = "limited (Some ''2'')"
             and ?r2.0 = "limited None"]
  have a1: "fst (estimatePercentFull busyPlatform) = 2"
    and a2: "fst (snd (estimatePercentFull busyPlatform)) = [waitMs busyPlatform 1 (limited (Some ''2''))]"
    and a3: "snd (snd (estimatePercentFull busyPlatform))
              = Inl (RateLimitError (rateLimitMessage (waitMs busyPlatform 2 (limited None)))
                       (Some (waitMs busyPlatform 2 (limited None))))"
    using A f by blast+
  have busy: "estimatePercentFull busyPlatform
       = (2, [2000],
          Inl (RateLimitError
                 ''Scan failed (429) - Gemini API rate limit. Please try again in 3s.''
                 (Some 2625)))"
    using a1 a2 a3 unfolding busy_waits busy_message
    by (intro prod_eqI) simp_all
  note B = rate_limited_retry [OF rnd', where ?r1.0 = serverError]
  have "estimatePercentFull serverErrorPlatform = (1, [], Inl (Error (errorMessage serverError)))"
    using B g by blast
  then have over: "estimatePercentFull serverErrorPlatform
                     = (1, [], Inl (Error ''Scan failed (500) - overloaded''))"
    by (simp only: serverError_message)
  show ?thesis
    by (intro conjI rnd rnd' f g busy over)
qed

end
